theory Spec2Isabelle
  imports Main
begin

section \<open>Go values used by the discussion tools\<close>

text \<open>
  Errors. The handlers of \<^verbatim>\<open>pkg/github/discussions.go\<close> only ever look at an error to
  wrap it (\<^verbatim>\<open>fmt.Errorf("...: %w", err)\<close>) or to print it (\<^verbatim>\<open>err.Error()\<close>).
  \<open>ExternalError\<close> stands for an error made outside the file (by the client factory, the
  REST client, \<^verbatim>\<open>io.ReadAll\<close> or \<^verbatim>\<open>json.Marshal\<close>); \<open>Errorf msg err\<close> is
  \<^verbatim>\<open>fmt.Errorf(msg + ": %w", err)\<close>.
\<close>

datatype go_error =
    MissingRequiredParameter string
  | ParameterNotOfType string string
  | ExternalError string
  | Errorf string go_error

fun Error :: "go_error \<Rightarrow> string" where
  "Error (MissingRequiredParameter p) = ''missing required parameter: '' @ p"
| "Error (ParameterNotOfType p ty) = ''parameter '' @ p @ '' is not of type '' @ ty"
| "Error (ExternalError msg) = msg"
| "Error (Errorf msg err) = msg @ '': '' @ Error err"

fun is_parameter_error :: "go_error \<Rightarrow> bool" where
  "is_parameter_error (MissingRequiredParameter p) = True"
| "is_parameter_error (ParameterNotOfType p ty) = True"
| "is_parameter_error (ExternalError msg) = False"
| "is_parameter_error (Errorf msg err) = False"

text \<open>
  A request carries \<^verbatim>\<open>request.Params.Arguments\<close>, a \<^verbatim>\<open>map[string]interface{}\<close>
  decoded from JSON. A JSON number arrives as a \<^verbatim>\<open>float64\<close> and is turned into an
  \<^verbatim>\<open>int\<close> by helpers defined outside the file; the model keeps the whole numbers the
  tools speak of (discussion number, page number, page size) and leaves that conversion
  out.
\<close>

datatype interface_value =
    StringValue string
  | NumberValue int
  | BoolValue bool
  | NilValue
  | CompositeValue

type_synonym CallToolRequest = "string \<Rightarrow> interface_value option"

text \<open>\<^verbatim>\<open>mcp.CallToolResult\<close>: one text content and the error flag.\<close>

record CallToolResult =
  Text :: string
  IsError :: bool

definition NewToolResultText :: "string \<Rightarrow> CallToolResult" where
  "NewToolResultText s = \<lparr>Text = s, IsError = False\<rparr>"

definition NewToolResultError :: "string \<Rightarrow> CallToolResult" where
  "NewToolResultError s = \<lparr>Text = s, IsError = True\<rparr>"

section \<open>Parameter helpers\<close>

text \<open>
  Modelled from the spec: \<^verbatim>\<open>requiredParam[string]\<close> is called by every handler but is
  defined in another file of the package. The specification says that a required
  parameter must be present and of the expected primitive type, else a parameter error is
  reported, and that an empty string for a required string parameter fails validation;
  the package's test of \<^verbatim>\<open>add_discussion_comment\<close> expects the text
  \<^verbatim>\<open>missing required parameter: body\<close> for \<^verbatim>\<open>body = ""\<close>. The wording of the
  type-mismatch message is not given; nothing below depends on it.
\<close>

definition requiredParam_string :: "CallToolRequest \<Rightarrow> string \<Rightarrow> go_error + string" where
  "requiredParam_string r p =
     (case r p of
        None \<Rightarrow> Inl (MissingRequiredParameter p)
      | Some (StringValue s) \<Rightarrow>
          if s = '''' then Inl (MissingRequiredParameter p) else Inr s
      | Some _ \<Rightarrow> Inl (ParameterNotOfType p ''string''))"

text \<open>
  Modelled from the spec: \<^verbatim>\<open>RequiredInt\<close>, defined in another file of the package. A
  required number must be present and be a number, else a parameter error is reported.
\<close>

definition RequiredInt :: "CallToolRequest \<Rightarrow> string \<Rightarrow> go_error + int" where
  "RequiredInt r p =
     (case r p of
        None \<Rightarrow> Inl (MissingRequiredParameter p)
      | Some (NumberValue n) \<Rightarrow> Inr n
      | Some _ \<Rightarrow> Inl (ParameterNotOfType p ''number''))"

text \<open>
  Modelled from the spec: \<^verbatim>\<open>OptionalParam[string]\<close>, defined in another file of the
  package. An optional parameter may be absent, in which case the handler sees the zero
  value of the type; a mistyped one is a parameter error.
\<close>

definition OptionalParam_string :: "CallToolRequest \<Rightarrow> string \<Rightarrow> go_error + string" where
  "OptionalParam_string r p =
     (case r p of
        None \<Rightarrow> Inr ''''
      | Some (StringValue s) \<Rightarrow> Inr s
      | Some _ \<Rightarrow> Inl (ParameterNotOfType p ''string''))"

record PaginationParams =
  page :: int
  perPage :: int

text \<open>
  Modelled from the spec: \<^verbatim>\<open>OptionalPaginationParams\<close>, defined in another file of the
  package. The optional parameters \<^verbatim>\<open>page\<close> and \<^verbatim>\<open>perPage\<close> are numbers that are
  forwarded unchanged when supplied. The specification does not say which values stand in
  for an absent one, so they are a parameter \<open>dflt\<close> of the model.
\<close>

definition OptionalPaginationParams ::
    "PaginationParams \<Rightarrow> CallToolRequest \<Rightarrow> go_error + PaginationParams" where
  "OptionalPaginationParams dflt r =
     (case (case r ''page'' of
              None \<Rightarrow> Inr (page dflt)
            | Some (NumberValue n) \<Rightarrow> Inr n
            | Some _ \<Rightarrow> Inl (ParameterNotOfType ''page'' ''number'')) of
        Inl err \<Rightarrow> Inl err
      | Inr pg \<Rightarrow>
          (case (case r ''perPage'' of
                   None \<Rightarrow> Inr (perPage dflt)
                 | Some (NumberValue n) \<Rightarrow> Inr n
                 | Some _ \<Rightarrow> Inl (ParameterNotOfType ''perPage'' ''number'')) of
             Inl err \<Rightarrow> Inl err
           | Inr pp \<Rightarrow> Inr \<lparr>page = pg, perPage = pp\<rparr>))"

section \<open>Tool declarations\<close>

text \<open>
  \<^verbatim>\<open>mcp.NewTool(name, options...)\<close> with the options the file uses. A property is
  required when its option list holds \<^verbatim>\<open>mcp.Required()\<close>; the tool's
  \<^verbatim>\<open>InputSchema.Required\<close> lists those properties in declaration order.
\<close>

datatype PropertyOption =
    Required
  | Description string
  | Enum "string list"

datatype ToolOption =
    WithDescription string
  | WithString string "PropertyOption list"
  | WithNumber string "PropertyOption list"

datatype Tool = NewTool string "ToolOption list"

datatype property_type = string_type | number_type

text \<open>The declared properties of a tool: name, primitive type, and whether required.\<close>

fun property_of :: "ToolOption \<Rightarrow> (string \<times> property_type \<times> bool) list" where
  "property_of (WithDescription d) = []"
| "property_of (WithString n os) = [(n, string_type, Required \<in> set os)]"
| "property_of (WithNumber n os) = [(n, number_type, Required \<in> set os)]"

fun Tool_Name :: "Tool \<Rightarrow> string" where
  "Tool_Name (NewTool n os) = n"

fun InputSchema_Properties :: "Tool \<Rightarrow> (string \<times> property_type \<times> bool) list" where
  "InputSchema_Properties (NewTool n os) = concat (map property_of os)"

definition InputSchema_Required :: "Tool \<Rightarrow> string list" where
  "InputSchema_Required tool =
     map fst (filter (\<lambda>(n, ty, req). req) (InputSchema_Properties tool))"

definition optional_properties :: "Tool \<Rightarrow> string list" where
  "optional_properties tool =
     map fst (filter (\<lambda>(n, ty, req). \<not> req) (InputSchema_Properties tool))"

definition required_properties :: "Tool \<Rightarrow> (string \<times> property_type) list" where
  "required_properties tool =
     map (\<lambda>(n, ty, req). (n, ty)) (filter (\<lambda>(n, ty, req). req) (InputSchema_Properties tool))"

text \<open>
  Modelled from the spec: \<^verbatim>\<open>WithPagination\<close>, defined in another file of the package.
  It adds the two optional number parameters \<^verbatim>\<open>page\<close> and \<^verbatim>\<open>perPage\<close>.
\<close>

definition WithPagination :: "ToolOption list" where
  "WithPagination = [WithNumber ''page'' [], WithNumber ''perPage'' []]"

type_synonym TranslationHelperFunc = "string \<Rightarrow> string \<Rightarrow> string"

definition ListDiscussions_tool :: "TranslationHelperFunc \<Rightarrow> Tool" where
  "ListDiscussions_tool t =
     NewTool ''list_discussions''
       ([WithDescription (t ''TOOL_LIST_DISCUSSIONS_DESCRIPTION''
            ''List discussions in a GitHub repository with filtering options''),
         WithString ''owner'' [Required, Description ''Repository owner''],
         WithString ''repo'' [Required, Description ''Repository name''],
         WithString ''direction''
           [Description ''Sort direction ('asc', 'desc')'', Enum [''asc'', ''desc'']],
         WithString ''category_id'' [Description ''Filter by category ID''],
         WithString ''pinned''
           [Description ''Filter by pinned status ('true', 'false')'', Enum [''true'', ''false'']]]
        @ WithPagination)"

definition GetDiscussion_tool :: "TranslationHelperFunc \<Rightarrow> Tool" where
  "GetDiscussion_tool t =
     NewTool ''get_discussion''
       [WithDescription (t ''TOOL_GET_DISCUSSION_DESCRIPTION''
            ''Get details of a specific discussion in a GitHub repository''),
        WithString ''owner'' [Required, Description ''The owner of the repository''],
        WithString ''repo'' [Required, Description ''The name of the repository''],
        WithNumber ''discussion_number''
          [Required, Description ''The number of the discussion'']]"

definition GetDiscussionCategories_tool :: "TranslationHelperFunc \<Rightarrow> Tool" where
  "GetDiscussionCategories_tool t =
     NewTool ''get_discussion_categories''
       ([WithDescription (t ''TOOL_GET_DISCUSSION_CATEGORIES_DESCRIPTION''
            ''Get discussion categories in a GitHub repository''),
         WithString ''owner'' [Required, Description ''Repository owner''],
         WithString ''repo'' [Required, Description ''Repository name'']]
        @ WithPagination)"

definition GetDiscussionComments_tool :: "TranslationHelperFunc \<Rightarrow> Tool" where
  "GetDiscussionComments_tool t =
     NewTool ''get_discussion_comments''
       ([WithDescription (t ''TOOL_GET_DISCUSSION_COMMENTS_DESCRIPTION''
            ''Get comments for a GitHub discussion''),
         WithString ''owner'' [Required, Description ''Repository owner''],
         WithString ''repo'' [Required, Description ''Repository name''],
         WithNumber ''discussion_number'' [Required, Description ''Discussion number'']]
        @ WithPagination)"

definition AddDiscussionComment_tool :: "TranslationHelperFunc \<Rightarrow> Tool" where
  "AddDiscussionComment_tool t =
     NewTool ''add_discussion_comment''
       [WithDescription (t ''TOOL_ADD_DISCUSSION_COMMENT_DESCRIPTION''
            ''Add a comment to an existing discussion''),
        WithString ''owner'' [Required, Description ''Repository owner''],
        WithString ''repo'' [Required, Description ''Repository name''],
        WithNumber ''discussion_number''
          [Required, Description ''Discussion number to comment on''],
        WithString ''body'' [Required, Description ''Comment text'']]"

definition CreateDiscussion_tool :: "TranslationHelperFunc \<Rightarrow> Tool" where
  "CreateDiscussion_tool t =
     NewTool ''create_discussion''
       [WithDescription (t ''TOOL_CREATE_DISCUSSION_DESCRIPTION''
            ''Create a new discussion in a GitHub repository''),
        WithString ''owner'' [Required, Description ''Repository owner''],
        WithString ''repo'' [Required, Description ''Repository name''],
        WithString ''title'' [Required, Description ''Discussion title''],
        WithString ''body'' [Required, Description ''Discussion body content''],
        WithString ''category_id'' [Required, Description ''Category ID for the discussion'']]"

section \<open>The upstream client\<close>

text \<open>
  The option and request structs of the REST client library, with the fields the
  handlers set. A Go pointer field that may be \<^verbatim>\<open>nil\<close> is an \<open>option\<close>.
\<close>

record ListOptions =
  Page :: int
  PerPage :: int

record DiscussionListOptions =
  Direction :: string
  CategoryID :: string
  Pinned :: "bool option"
  ListOptions :: ListOptions

record DiscussionCommentListOptions =
  CommentListOptions :: ListOptions

record DiscussionComment =
  Comment_Body :: "string option"

record DiscussionRequest =
  Request_Title :: "string option"
  Request_Body :: "string option"
  Request_CategoryID :: "string option"

text \<open>
  One value per method of \<^verbatim>\<open>client.Discussions\<close> that the file calls, with the
  arguments of the call (the context is left out: the file only passes it on).
\<close>

datatype upstream_call =
    Discussions_ListDiscussions string string DiscussionListOptions
  | Discussions_GetDiscussion string string int
  | Discussions_ListDiscussionCategories string string ListOptions
  | Discussions_ListDiscussionComments string string int DiscussionCommentListOptions
  | Discussions_CreateDiscussionComment string string int DiscussionComment
  | Discussions_CreateDiscussion string string DiscussionRequest

text \<open>
  \<^verbatim>\<open>http.Response\<close>: the status code, and what \<^verbatim>\<open>io.ReadAll(resp.Body)\<close> gives (the
  bytes, or an error).
\<close>

record Response =
  StatusCode :: int
  Body :: "go_error + string"

definition StatusOK :: int where
  "StatusOK = 200"

definition StatusCreated :: int where
  "StatusCreated = 201"

text \<open>
  A client answers a call with an error, or with the decoded object and the response.
  The type \<open>'o\<close> is the type of the objects the library returns.
\<close>

type_synonym 'o Client = "upstream_call \<Rightarrow> go_error + ('o \<times> Response)"

text \<open>
  What a handler is given from outside the file: \<^verbatim>\<open>getClient(ctx)\<close> (an error or a
  client), \<^verbatim>\<open>json.Marshal\<close> on the library's objects, and the pagination values used
  for absent parameters.
\<close>

record 'o env =
  getClient :: "go_error + 'o Client"
  json_Marshal :: "'o \<Rightarrow> go_error + string"
  defaultPagination :: PaginationParams

text \<open>
  The effects of a handler, in the order they happen: obtaining the client, the call to
  the upstream service, reading the response body, and closing it (the deferred
  \<^verbatim>\<open>resp.Body.Close()\<close>).
\<close>

datatype effect =
    GetClient
  | ClientCall upstream_call
  | ReadAll_Body
  | Body_Close

text \<open>
  A handler returns the Go pair \<^verbatim>\<open>(*mcp.CallToolResult, error)\<close>, each of which may be
  \<^verbatim>\<open>nil\<close>, and leaves a list of effects.
\<close>

type_synonym outcome = "(CallToolResult option \<times> go_error option) \<times> effect list"

fun client_calls :: "effect list \<Rightarrow> upstream_call list" where
  "client_calls [] = []"
| "client_calls (ClientCall c # es) = c # client_calls es"
| "client_calls (e # es) = client_calls es"

section \<open>The six tools\<close>

subsection \<open>list_discussions\<close>

text \<open>Lines 43 to 90: the parameters, and the arguments of the call built from them.\<close>

definition ListDiscussions_params ::
    "PaginationParams \<Rightarrow> CallToolRequest \<Rightarrow> go_error + upstream_call" where
  "ListDiscussions_params dflt request =
     (case requiredParam_string request ''owner'' of
        Inl err \<Rightarrow> Inl err
      | Inr owner \<Rightarrow>
     (case requiredParam_string request ''repo'' of
        Inl err \<Rightarrow> Inl err
      | Inr repo \<Rightarrow>
     (let opts = \<lparr>Direction = '''', CategoryID = '''', Pinned = None,
                   ListOptions = \<lparr>Page = 0, PerPage = 0\<rparr>\<rparr> in
     (case OptionalParam_string request ''direction'' of
        Inl err \<Rightarrow> Inl err
      | Inr direction \<Rightarrow>
     (let opts = (if direction \<noteq> '''' then opts\<lparr>Direction := direction\<rparr> else opts) in
     (case OptionalParam_string request ''category_id'' of
        Inl err \<Rightarrow> Inl err
      | Inr categoryID \<Rightarrow>
     (let opts = (if categoryID \<noteq> '''' then opts\<lparr>CategoryID := categoryID\<rparr> else opts) in
     (case OptionalParam_string request ''pinned'' of
        Inl err \<Rightarrow> Inl err
      | Inr pinnedStr \<Rightarrow>
     (let opts = (if pinnedStr = ''true'' then opts\<lparr>Pinned := Some True\<rparr>
                  else if pinnedStr = ''false'' then opts\<lparr>Pinned := Some False\<rparr>
                  else opts) in
     (case OptionalPaginationParams dflt request of
        Inl err \<Rightarrow> Inl err
      | Inr pagination \<Rightarrow>
     (let opts = opts\<lparr>ListOptions :=
                   \<lparr>Page = page pagination, PerPage = perPage pagination\<rparr>\<rparr> in
      Inr (Discussions_ListDiscussions owner repo opts))))))))))))"

text \<open>Lines 42 to 116: a parameter error ends the call; otherwise lines 92 to 115.\<close>

definition ListDiscussions_handler :: "'o env \<Rightarrow> CallToolRequest \<Rightarrow> outcome" where
  "ListDiscussions_handler env request =
     (case ListDiscussions_params (defaultPagination env) request of
        Inl err \<Rightarrow> ((Some (NewToolResultError (Error err)), None), [])
      | Inr call \<Rightarrow>
     (case getClient env of
        Inl err \<Rightarrow> ((None, Some (Errorf ''failed to get GitHub client'' err)), [GetClient])
      | Inr client \<Rightarrow>
     (case client call of
        Inl err \<Rightarrow>
          ((None, Some (Errorf ''failed to list discussions'' err)),
           [GetClient, ClientCall call])
      | Inr (discussions, resp) \<Rightarrow>
          if StatusCode resp \<noteq> StatusOK then
            (case Body resp of
               Inl err \<Rightarrow>
                 ((None, Some (Errorf ''failed to read response body'' err)),
                  [GetClient, ClientCall call, ReadAll_Body, Body_Close])
             | Inr body \<Rightarrow>
                 ((Some (NewToolResultError (''failed to list discussions: '' @ body)), None),
                  [GetClient, ClientCall call, ReadAll_Body, Body_Close]))
          else
            (case json_Marshal env discussions of
               Inl err \<Rightarrow>
                 ((None, Some (Errorf ''failed to marshal discussions'' err)),
                  [GetClient, ClientCall call, Body_Close])
             | Inr r \<Rightarrow>
                 ((Some (NewToolResultText r), None),
                  [GetClient, ClientCall call, Body_Close])))))"

definition ListDiscussions ::
    "'o env \<Rightarrow> TranslationHelperFunc \<Rightarrow> Tool \<times> (CallToolRequest \<Rightarrow> outcome)" where
  "ListDiscussions env t = (ListDiscussions_tool t, ListDiscussions_handler env)"

subsection \<open>get_discussion\<close>

text \<open>Lines 137 to 148.\<close>

definition GetDiscussion_params :: "CallToolRequest \<Rightarrow> go_error + upstream_call" where
  "GetDiscussion_params request =
     (case requiredParam_string request ''owner'' of
        Inl err \<Rightarrow> Inl err
      | Inr owner \<Rightarrow>
     (case requiredParam_string request ''repo'' of
        Inl err \<Rightarrow> Inl err
      | Inr repo \<Rightarrow>
     (case RequiredInt request ''discussion_number'' of
        Inl err \<Rightarrow> Inl err
      | Inr discussionNumber \<Rightarrow>
          Inr (Discussions_GetDiscussion owner repo discussionNumber))))"

text \<open>Lines 136 to 174.\<close>

definition GetDiscussion_handler :: "'o env \<Rightarrow> CallToolRequest \<Rightarrow> outcome" where
  "GetDiscussion_handler env request =
     (case GetDiscussion_params request of
        Inl err \<Rightarrow> ((Some (NewToolResultError (Error err)), None), [])
      | Inr call \<Rightarrow>
     (case getClient env of
        Inl err \<Rightarrow> ((None, Some (Errorf ''failed to get GitHub client'' err)), [GetClient])
      | Inr client \<Rightarrow>
     (case client call of
        Inl err \<Rightarrow>
          ((None, Some (Errorf ''failed to get discussion'' err)),
           [GetClient, ClientCall call])
      | Inr (discussion, resp) \<Rightarrow>
          if StatusCode resp \<noteq> StatusOK then
            (case Body resp of
               Inl err \<Rightarrow>
                 ((None, Some (Errorf ''failed to read response body'' err)),
                  [GetClient, ClientCall call, ReadAll_Body, Body_Close])
             | Inr body \<Rightarrow>
                 ((Some (NewToolResultError (''failed to get discussion: '' @ body)), None),
                  [GetClient, ClientCall call, ReadAll_Body, Body_Close]))
          else
            (case json_Marshal env discussion of
               Inl err \<Rightarrow>
                 ((None, Some (Errorf ''failed to marshal discussion'' err)),
                  [GetClient, ClientCall call, Body_Close])
             | Inr r \<Rightarrow>
                 ((Some (NewToolResultText r), None),
                  [GetClient, ClientCall call, Body_Close])))))"

definition GetDiscussion ::
    "'o env \<Rightarrow> TranslationHelperFunc \<Rightarrow> Tool \<times> (CallToolRequest \<Rightarrow> outcome)" where
  "GetDiscussion env t = (GetDiscussion_tool t, GetDiscussion_handler env)"

subsection \<open>get_discussion_categories\<close>

text \<open>Lines 192 to 208.\<close>

definition GetDiscussionCategories_params ::
    "PaginationParams \<Rightarrow> CallToolRequest \<Rightarrow> go_error + upstream_call" where
  "GetDiscussionCategories_params dflt request =
     (case requiredParam_string request ''owner'' of
        Inl err \<Rightarrow> Inl err
      | Inr owner \<Rightarrow>
     (case requiredParam_string request ''repo'' of
        Inl err \<Rightarrow> Inl err
      | Inr repo \<Rightarrow>
     (case OptionalPaginationParams dflt request of
        Inl err \<Rightarrow> Inl err
      | Inr pagination \<Rightarrow>
     (let opts = \<lparr>Page = page pagination, PerPage = perPage pagination\<rparr> in
      Inr (Discussions_ListDiscussionCategories owner repo opts)))))"

text \<open>Lines 191 to 234.\<close>

definition GetDiscussionCategories_handler :: "'o env \<Rightarrow> CallToolRequest \<Rightarrow> outcome" where
  "GetDiscussionCategories_handler env request =
     (case GetDiscussionCategories_params (defaultPagination env) request of
        Inl err \<Rightarrow> ((Some (NewToolResultError (Error err)), None), [])
      | Inr call \<Rightarrow>
     (case getClient env of
        Inl err \<Rightarrow> ((None, Some (Errorf ''failed to get GitHub client'' err)), [GetClient])
      | Inr client \<Rightarrow>
     (case client call of
        Inl err \<Rightarrow>
          ((None, Some (Errorf ''failed to get discussion categories'' err)),
           [GetClient, ClientCall call])
      | Inr (categories, resp) \<Rightarrow>
          if StatusCode resp \<noteq> StatusOK then
            (case Body resp of
               Inl err \<Rightarrow>
                 ((None, Some (Errorf ''failed to read response body'' err)),
                  [GetClient, ClientCall call, ReadAll_Body, Body_Close])
             | Inr body \<Rightarrow>
                 ((Some (NewToolResultError
                           (''failed to get discussion categories: '' @ body)), None),
                  [GetClient, ClientCall call, ReadAll_Body, Body_Close]))
          else
            (case json_Marshal env categories of
               Inl err \<Rightarrow>
                 ((None, Some (Errorf ''failed to marshal categories'' err)),
                  [GetClient, ClientCall call, Body_Close])
             | Inr r \<Rightarrow>
                 ((Some (NewToolResultText r), None),
                  [GetClient, ClientCall call, Body_Close])))))"

definition GetDiscussionCategories ::
    "'o env \<Rightarrow> TranslationHelperFunc \<Rightarrow> Tool \<times> (CallToolRequest \<Rightarrow> outcome)" where
  "GetDiscussionCategories env t =
     (GetDiscussionCategories_tool t, GetDiscussionCategories_handler env)"

subsection \<open>get_discussion_comments\<close>

text \<open>Lines 256 to 278.\<close>

definition GetDiscussionComments_params ::
    "PaginationParams \<Rightarrow> CallToolRequest \<Rightarrow> go_error + upstream_call" where
  "GetDiscussionComments_params dflt request =
     (case requiredParam_string request ''owner'' of
        Inl err \<Rightarrow> Inl err
      | Inr owner \<Rightarrow>
     (case requiredParam_string request ''repo'' of
        Inl err \<Rightarrow> Inl err
      | Inr repo \<Rightarrow>
     (case RequiredInt request ''discussion_number'' of
        Inl err \<Rightarrow> Inl err
      | Inr discussionNumber \<Rightarrow>
     (case OptionalPaginationParams dflt request of
        Inl err \<Rightarrow> Inl err
      | Inr pagination \<Rightarrow>
     (let opts = \<lparr>CommentListOptions =
                   \<lparr>Page = page pagination, PerPage = perPage pagination\<rparr>\<rparr> in
      Inr (Discussions_ListDiscussionComments owner repo discussionNumber opts))))))"

text \<open>Lines 255 to 304.\<close>

definition GetDiscussionComments_handler :: "'o env \<Rightarrow> CallToolRequest \<Rightarrow> outcome" where
  "GetDiscussionComments_handler env request =
     (case GetDiscussionComments_params (defaultPagination env) request of
        Inl err \<Rightarrow> ((Some (NewToolResultError (Error err)), None), [])
      | Inr call \<Rightarrow>
     (case getClient env of
        Inl err \<Rightarrow> ((None, Some (Errorf ''failed to get GitHub client'' err)), [GetClient])
      | Inr client \<Rightarrow>
     (case client call of
        Inl err \<Rightarrow>
          ((None, Some (Errorf ''failed to get discussion comments'' err)),
           [GetClient, ClientCall call])
      | Inr (comments, resp) \<Rightarrow>
          if StatusCode resp \<noteq> StatusOK then
            (case Body resp of
               Inl err \<Rightarrow>
                 ((None, Some (Errorf ''failed to read response body'' err)),
                  [GetClient, ClientCall call, ReadAll_Body, Body_Close])
             | Inr body \<Rightarrow>
                 ((Some (NewToolResultError
                           (''failed to get discussion comments: '' @ body)), None),
                  [GetClient, ClientCall call, ReadAll_Body, Body_Close]))
          else
            (case json_Marshal env comments of
               Inl err \<Rightarrow>
                 ((None, Some (Errorf ''failed to marshal comments'' err)),
                  [GetClient, ClientCall call, Body_Close])
             | Inr r \<Rightarrow>
                 ((Some (NewToolResultText r), None),
                  [GetClient, ClientCall call, Body_Close])))))"

definition GetDiscussionComments ::
    "'o env \<Rightarrow> TranslationHelperFunc \<Rightarrow> Tool \<times> (CallToolRequest \<Rightarrow> outcome)" where
  "GetDiscussionComments env t =
     (GetDiscussionComments_tool t, GetDiscussionComments_handler env)"

subsection \<open>add_discussion_comment\<close>

text \<open>Lines 329 to 348.\<close>

definition AddDiscussionComment_params :: "CallToolRequest \<Rightarrow> go_error + upstream_call" where
  "AddDiscussionComment_params request =
     (case requiredParam_string request ''owner'' of
        Inl err \<Rightarrow> Inl err
      | Inr owner \<Rightarrow>
     (case requiredParam_string request ''repo'' of
        Inl err \<Rightarrow> Inl err
      | Inr repo \<Rightarrow>
     (case RequiredInt request ''discussion_number'' of
        Inl err \<Rightarrow> Inl err
      | Inr discussionNumber \<Rightarrow>
     (case requiredParam_string request ''body'' of
        Inl err \<Rightarrow> Inl err
      | Inr body \<Rightarrow>
     (let comment = \<lparr>Comment_Body = Some body\<rparr> in
      Inr (Discussions_CreateDiscussionComment owner repo discussionNumber comment))))))"

text \<open>Lines 328 to 374.\<close>

definition AddDiscussionComment_handler :: "'o env \<Rightarrow> CallToolRequest \<Rightarrow> outcome" where
  "AddDiscussionComment_handler env request =
     (case AddDiscussionComment_params request of
        Inl err \<Rightarrow> ((Some (NewToolResultError (Error err)), None), [])
      | Inr call \<Rightarrow>
     (case getClient env of
        Inl err \<Rightarrow> ((None, Some (Errorf ''failed to get GitHub client'' err)), [GetClient])
      | Inr client \<Rightarrow>
     (case client call of
        Inl err \<Rightarrow>
          ((None, Some (Errorf ''failed to create discussion comment'' err)),
           [GetClient, ClientCall call])
      | Inr (createdComment, resp) \<Rightarrow>
          if StatusCode resp \<noteq> StatusCreated then
            (case Body resp of
               Inl err \<Rightarrow>
                 ((None, Some (Errorf ''failed to read response body'' err)),
                  [GetClient, ClientCall call, ReadAll_Body, Body_Close])
             | Inr body \<Rightarrow>
                 ((Some (NewToolResultError
                           (''failed to create discussion comment: '' @ body)), None),
                  [GetClient, ClientCall call, ReadAll_Body, Body_Close]))
          else
            (case json_Marshal env createdComment of
               Inl err \<Rightarrow>
                 ((None, Some (Errorf ''failed to marshal response'' err)),
                  [GetClient, ClientCall call, Body_Close])
             | Inr r \<Rightarrow>
                 ((Some (NewToolResultText r), None),
                  [GetClient, ClientCall call, Body_Close])))))"

definition AddDiscussionComment ::
    "'o env \<Rightarrow> TranslationHelperFunc \<Rightarrow> Tool \<times> (CallToolRequest \<Rightarrow> outcome)" where
  "AddDiscussionComment env t =
     (AddDiscussionComment_tool t, AddDiscussionComment_handler env)"

subsection \<open>create_discussion\<close>

text \<open>Lines 403 to 428.\<close>

definition CreateDiscussion_params :: "CallToolRequest \<Rightarrow> go_error + upstream_call" where
  "CreateDiscussion_params request =
     (case requiredParam_string request ''owner'' of
        Inl err \<Rightarrow> Inl err
      | Inr owner \<Rightarrow>
     (case requiredParam_string request ''repo'' of
        Inl err \<Rightarrow> Inl err
      | Inr repo \<Rightarrow>
     (case requiredParam_string request ''title'' of
        Inl err \<Rightarrow> Inl err
      | Inr title \<Rightarrow>
     (case requiredParam_string request ''body'' of
        Inl err \<Rightarrow> Inl err
      | Inr body \<Rightarrow>
     (case requiredParam_string request ''category_id'' of
        Inl err \<Rightarrow> Inl err
      | Inr categoryID \<Rightarrow>
     (let discussionRequest =
            \<lparr>Request_Title = Some title, Request_Body = Some body,
             Request_CategoryID = Some categoryID\<rparr> in
      Inr (Discussions_CreateDiscussion owner repo discussionRequest)))))))"

text \<open>Lines 402 to 454.\<close>

definition CreateDiscussion_handler :: "'o env \<Rightarrow> CallToolRequest \<Rightarrow> outcome" where
  "CreateDiscussion_handler env request =
     (case CreateDiscussion_params request of
        Inl err \<Rightarrow> ((Some (NewToolResultError (Error err)), None), [])
      | Inr call \<Rightarrow>
     (case getClient env of
        Inl err \<Rightarrow> ((None, Some (Errorf ''failed to get GitHub client'' err)), [GetClient])
      | Inr client \<Rightarrow>
     (case client call of
        Inl err \<Rightarrow>
          ((None, Some (Errorf ''failed to create discussion'' err)),
           [GetClient, ClientCall call])
      | Inr (discussion, resp) \<Rightarrow>
          if StatusCode resp \<noteq> StatusCreated then
            (case Body resp of
               Inl err \<Rightarrow>
                 ((None, Some (Errorf ''failed to read response body'' err)),
                  [GetClient, ClientCall call, ReadAll_Body, Body_Close])
             | Inr body \<Rightarrow>
                 ((Some (NewToolResultError (''failed to create discussion: '' @ body)), None),
                  [GetClient, ClientCall call, ReadAll_Body, Body_Close]))
          else
            (case json_Marshal env discussion of
               Inl err \<Rightarrow>
                 ((None, Some (Errorf ''failed to marshal response'' err)),
                  [GetClient, ClientCall call, Body_Close])
             | Inr r \<Rightarrow>
                 ((Some (NewToolResultText r), None),
                  [GetClient, ClientCall call, Body_Close])))))"

definition CreateDiscussion ::
    "'o env \<Rightarrow> TranslationHelperFunc \<Rightarrow> Tool \<times> (CallToolRequest \<Rightarrow> outcome)" where
  "CreateDiscussion env t = (CreateDiscussion_tool t, CreateDiscussion_handler env)"

section \<open>The tools as one family\<close>

datatype operation =
    list_discussions
  | get_discussion
  | get_discussion_categories
  | get_discussion_comments
  | add_discussion_comment
  | create_discussion

fun tool_of :: "operation \<Rightarrow> TranslationHelperFunc \<Rightarrow> Tool" where
  "tool_of list_discussions t = ListDiscussions_tool t"
| "tool_of get_discussion t = GetDiscussion_tool t"
| "tool_of get_discussion_categories t = GetDiscussionCategories_tool t"
| "tool_of get_discussion_comments t = GetDiscussionComments_tool t"
| "tool_of add_discussion_comment t = AddDiscussionComment_tool t"
| "tool_of create_discussion t = CreateDiscussion_tool t"

fun params_of ::
    "operation \<Rightarrow> PaginationParams \<Rightarrow> CallToolRequest \<Rightarrow> go_error + upstream_call" where
  "params_of list_discussions dflt request = ListDiscussions_params dflt request"
| "params_of get_discussion dflt request = GetDiscussion_params request"
| "params_of get_discussion_categories dflt request =
     GetDiscussionCategories_params dflt request"
| "params_of get_discussion_comments dflt request = GetDiscussionComments_params dflt request"
| "params_of add_discussion_comment dflt request = AddDiscussionComment_params request"
| "params_of create_discussion dflt request = CreateDiscussion_params request"

fun handler_of :: "operation \<Rightarrow> 'o env \<Rightarrow> CallToolRequest \<Rightarrow> outcome" where
  "handler_of list_discussions env request = ListDiscussions_handler env request"
| "handler_of get_discussion env request = GetDiscussion_handler env request"
| "handler_of get_discussion_categories env request =
     GetDiscussionCategories_handler env request"
| "handler_of get_discussion_comments env request = GetDiscussionComments_handler env request"
| "handler_of add_discussion_comment env request = AddDiscussionComment_handler env request"
| "handler_of create_discussion env request = CreateDiscussion_handler env request"

text \<open>
  The message each handler puts in front of a failure of its upstream call, as the
  string literals of lines 98 and 107, 156 and 165, 216 and 225, 286 and 295, 356 and 365,
  436 and 445 have it.
\<close>

fun operation_message :: "operation \<Rightarrow> string" where
  "operation_message list_discussions = ''failed to list discussions''"
| "operation_message get_discussion = ''failed to get discussion''"
| "operation_message get_discussion_categories = ''failed to get discussion categories''"
| "operation_message get_discussion_comments = ''failed to get discussion comments''"
| "operation_message add_discussion_comment = ''failed to create discussion comment''"
| "operation_message create_discussion = ''failed to create discussion''"

text \<open>Whether an argument of a request has a declared primitive type.\<close>

fun has_type :: "property_type \<Rightarrow> interface_value option \<Rightarrow> bool" where
  "has_type string_type (Some (StringValue s)) = True"
| "has_type number_type (Some (NumberValue n)) = True"
| "has_type ty v = False"

text \<open>The page options an upstream call carries, for the calls that have them.\<close>

fun call_ListOptions :: "upstream_call \<Rightarrow> ListOptions option" where
  "call_ListOptions (Discussions_ListDiscussions owner repo opts) = Some (ListOptions opts)"
| "call_ListOptions (Discussions_ListDiscussionCategories owner repo opts) = Some opts"
| "call_ListOptions (Discussions_ListDiscussionComments owner repo n opts) =
     Some (CommentListOptions opts)"
| "call_ListOptions c = None"

section \<open>The tool surface as the specification states it\<close>

text \<open>
  The table of section 6 of the specification: for each tool its required parameters,
  its optional parameters and the status code that counts as success.
\<close>

fun tool_surface_required :: "operation \<Rightarrow> string list" where
  "tool_surface_required list_discussions = [''owner'', ''repo'']"
| "tool_surface_required get_discussion = [''owner'', ''repo'', ''discussion_number'']"
| "tool_surface_required get_discussion_categories = [''owner'', ''repo'']"
| "tool_surface_required get_discussion_comments =
     [''owner'', ''repo'', ''discussion_number'']"
| "tool_surface_required add_discussion_comment =
     [''owner'', ''repo'', ''discussion_number'', ''body'']"
| "tool_surface_required create_discussion =
     [''owner'', ''repo'', ''title'', ''body'', ''category_id'']"

fun tool_surface_optional :: "operation \<Rightarrow> string list" where
  "tool_surface_optional list_discussions =
     [''direction'', ''category_id'', ''pinned'', ''page'', ''perPage'']"
| "tool_surface_optional get_discussion = []"
| "tool_surface_optional get_discussion_categories = [''page'', ''perPage'']"
| "tool_surface_optional get_discussion_comments = [''page'', ''perPage'']"
| "tool_surface_optional add_discussion_comment = []"
| "tool_surface_optional create_discussion = []"

fun documented_success_status :: "operation \<Rightarrow> int" where
  "documented_success_status list_discussions = 200"
| "documented_success_status get_discussion = 200"
| "documented_success_status get_discussion_categories = 200"
| "documented_success_status get_discussion_comments = 200"
| "documented_success_status add_discussion_comment = 201"
| "documented_success_status create_discussion = 201"

fun accepts_pagination :: "operation \<Rightarrow> bool" where
  "accepts_pagination list_discussions = True"
| "accepts_pagination get_discussion_categories = True"
| "accepts_pagination get_discussion_comments = True"
| "accepts_pagination op = False"

text \<open>The message in front of a failure of \<^verbatim>\<open>json.Marshal\<close>, from lines 112, 170, 230, 300, 370 and 450.\<close>

fun marshal_message :: "operation \<Rightarrow> string" where
  "marshal_message list_discussions = ''failed to marshal discussions''"
| "marshal_message get_discussion = ''failed to marshal discussion''"
| "marshal_message get_discussion_categories = ''failed to marshal categories''"
| "marshal_message get_discussion_comments = ''failed to marshal comments''"
| "marshal_message add_discussion_comment = ''failed to marshal response''"
| "marshal_message create_discussion = ''failed to marshal response''"

text \<open>The parameter a parameter error is about.\<close>

fun error_parameter :: "go_error \<Rightarrow> string option" where
  "error_parameter (MissingRequiredParameter p) = Some p"
| "error_parameter (ParameterNotOfType p ty) = Some p"
| "error_parameter (ExternalError msg) = None"
| "error_parameter (Errorf msg err) = None"

section \<open>Fixtures\<close>

text \<open>
  Modelled from the spec: \<^verbatim>\<open>translations.NullTranslationHelper\<close>, which the package's
  tests pass to the tool constructors; translation is a pass-through that keeps the default
  text.
\<close>

definition NullTranslationHelper :: TranslationHelperFunc where
  "NullTranslationHelper key defaultValue = defaultValue"

text \<open>
  A client that answers every call with the same object, status code and body, as the
  mocked HTTP clients of the package's tests do, and one whose calls fail.
\<close>

definition fixture_client :: "'o \<Rightarrow> int \<Rightarrow> go_error + string \<Rightarrow> 'o Client" where
  "fixture_client obj status body call = Inr (obj, \<lparr>StatusCode = status, Body = body\<rparr>)"

definition failing_client :: "go_error \<Rightarrow> string Client" where
  "failing_client err call = Inl err"

text \<open>Objects are stood for by their title; serialising one writes it after a key.\<close>

definition fixture_Marshal :: "string \<Rightarrow> go_error + string" where
  "fixture_Marshal obj = Inr (''title='' @ obj)"

definition fixture_env :: "go_error + string Client \<Rightarrow> string env" where
  "fixture_env gc =
     \<lparr>getClient = gc, json_Marshal = fixture_Marshal,
      defaultPagination = \<lparr>page = 1, perPage = 30\<rparr>\<rparr>"

text \<open>Requests of the package's tests, as argument maps.\<close>

definition request_owner_repo :: CallToolRequest where
  "request_owner_repo =
     map_of [(''owner'', StringValue ''owner''), (''repo'', StringValue ''repo'')]"

definition request_discussion_42 :: CallToolRequest where
  "request_discussion_42 =
     map_of [(''owner'', StringValue ''owner''), (''repo'', StringValue ''repo''),
             (''discussion_number'', NumberValue 42)]"

definition request_categories_page_2 :: CallToolRequest where
  "request_categories_page_2 =
     map_of [(''owner'', StringValue ''owner''), (''repo'', StringValue ''repo''),
             (''page'', NumberValue 2), (''perPage'', NumberValue 10)]"

definition request_comment_empty_body :: CallToolRequest where
  "request_comment_empty_body =
     map_of [(''owner'', StringValue ''owner''), (''repo'', StringValue ''repo''),
             (''discussion_number'', NumberValue 42), (''body'', StringValue '''')]"

definition request_list_unusable_filters :: CallToolRequest where
  "request_list_unusable_filters =
     map_of [(''owner'', StringValue ''owner''), (''repo'', StringValue ''repo''),
             (''direction'', StringValue ''''), (''category_id'', StringValue ''''),
             (''pinned'', StringValue ''yes'')]"

section \<open>Well-formed requests\<close>

text \<open>
  What the parameter helpers accept, as modelled above: a required argument must be
  present and have its declared type, and a required string must not be empty; an optional
  argument is either absent or has its declared type. A request is well formed for a tool
  when each declared property of the tool is accepted.
\<close>

fun accepted_required :: "property_type \<Rightarrow> interface_value option \<Rightarrow> bool" where
  "accepted_required string_type (Some (StringValue s)) = (s \<noteq> [])"
| "accepted_required number_type (Some (NumberValue n)) = True"
| "accepted_required ty v = False"

fun accepted_optional :: "property_type \<Rightarrow> interface_value option \<Rightarrow> bool" where
  "accepted_optional ty None = True"
| "accepted_optional ty (Some v) = has_type ty (Some v)"

definition well_formed :: "Tool \<Rightarrow> CallToolRequest \<Rightarrow> bool" where
  "well_formed tool request =
     list_all (\<lambda>(p, ty, req).
                 if req then accepted_required ty (request p)
                 else accepted_optional ty (request p))
       (InputSchema_Properties tool)"

text \<open>Requests of the package's tests that supply page and perPage.\<close>

definition request_list_page_1 :: CallToolRequest where
  "request_list_page_1 =
     map_of [(''owner'', StringValue ''owner''), (''repo'', StringValue ''repo''),
             (''direction'', StringValue ''desc''), (''category_id'', StringValue ''1''),
             (''pinned'', StringValue ''true''),
             (''page'', NumberValue 1), (''perPage'', NumberValue 30)]"

definition request_comments_page_2 :: CallToolRequest where
  "request_comments_page_2 =
     map_of [(''owner'', StringValue ''owner''), (''repo'', StringValue ''repo''),
             (''discussion_number'', NumberValue 42),
             (''page'', NumberValue 2), (''perPage'', NumberValue 10)]"

section \<open>JSON serialisation\<close>

text \<open>
  Modelled from the spec: \<^verbatim>\<open>json.Marshal\<close>, and the \<^verbatim>\<open>json.Unmarshal\<close> with which the
  package's tests read a payload back. Neither is part of the file, nor are the types of
  the objects the client library returns. The specification asks for a textual JSON
  payload that is a faithful re-serialisation of the upstream object and that deserialises
  to a structurally equal object. An object is modelled as the JSON value it serialises
  to: null, a boolean, a whole number, a string, an array, or an object whose fields are
  kept in order. The serialiser writes the compact text that \<^verbatim>\<open>json.Marshal\<close> writes
  for such a value: no white space; in a string the quotation mark and the backslash behind
  a backslash, backspace, form feed, line feed, carriage return and tab by their letter,
  and the other control characters and the characters \<^verbatim>\<open><\<close>, \<^verbatim>\<open>>\<close> and
  \<^verbatim>\<open>&\<close> as \<^verbatim>\<open>\u00XY\<close>; every other byte as it is. The deserialiser reads that
  text: compact JSON, with escapes up to \<^verbatim>\<open>\u007f\<close>.
\<close>

datatype json =
    JNull
  | JBool bool
  | JNumber int
  | JString string
  | JArray "json list"
  | JObject "(string \<times> json) list"

definition quotation_mark :: char where
  "quotation_mark = CHR 0x22"

definition backslash :: char where
  "backslash = CHR 0x5C"

definition is_digit :: "char \<Rightarrow> bool" where
  "is_digit c = (48 \<le> (of_char c :: nat) \<and> (of_char c :: nat) \<le> 57)"

definition digit_char :: "nat \<Rightarrow> char" where
  "digit_char d = char_of (48 + d)"

definition digit_value :: "char \<Rightarrow> nat" where
  "digit_value c = of_char c - 48"

definition hex_char :: "nat \<Rightarrow> char" where
  "hex_char d = (if d < 10 then char_of (48 + d) else char_of (87 + d))"

definition hex_value :: "char \<Rightarrow> nat option" where
  "hex_value c =
     (let n = (of_char c :: nat) in
      if 48 \<le> n \<and> n \<le> 57 then Some (n - 48)
      else if 97 \<le> n \<and> n \<le> 102 then Some (n - 87)
      else if 65 \<le> n \<and> n \<le> 70 then Some (n - 55)
      else None)"

subsection \<open>Writing\<close>

function decimal :: "nat \<Rightarrow> string" where
  "decimal n = (if n < 10 then [digit_char n] else decimal (n div 10) @ [digit_char (n mod 10)])"
  by pat_completeness auto
termination
  by (relation "measure (\<lambda>n. n)") auto

definition int_text :: "int \<Rightarrow> string" where
  "int_text i = (if i < 0 then CHR ''-'' # decimal (nat (- i)) else decimal (nat i))"

definition escape_char :: "char \<Rightarrow> string" where
  "escape_char c =
     (if c = quotation_mark \<or> c = backslash then [backslash, c]
      else if c = CHR 0x08 then [backslash, CHR ''b'']
      else if c = CHR 0x0C then [backslash, CHR ''f'']
      else if c = CHR 0x0A then [backslash, CHR ''n'']
      else if c = CHR 0x0D then [backslash, CHR ''r'']
      else if c = CHR 0x09 then [backslash, CHR ''t'']
      else if (of_char c :: nat) < 32 \<or> c = CHR ''<'' \<or> c = CHR ''>'' \<or> c = CHR ''&'' then
        [backslash, CHR ''u'', CHR ''0'', CHR ''0'',
         hex_char (of_char c div 16), hex_char (of_char c mod 16)]
      else [c])"

definition string_text :: "string \<Rightarrow> string" where
  "string_text s = quotation_mark # concat (map escape_char s) @ [quotation_mark]"

fun separated :: "string list \<Rightarrow> string" where
  "separated [] = []"
| "separated [x] = x"
| "separated (x # y # ys) = x @ CHR '','' # separated (y # ys)"

fun json_text :: "json \<Rightarrow> string" where
  "json_text JNull = ''null''"
| "json_text (JBool b) = (if b then ''true'' else ''false'')"
| "json_text (JNumber i) = int_text i"
| "json_text (JString s) = string_text s"
| "json_text (JArray vs) = CHR ''['' # separated (map json_text vs) @ [CHR '']'']"
| "json_text (JObject ms) =
     CHR ''{'' #
     separated (map (\<lambda>m. string_text (fst m) @ CHR '':'' # json_text (snd m)) ms) @
     [CHR ''}'']"

text \<open>
  Modelled from the spec: \<^verbatim>\<open>json.Marshal\<close> on an upstream object, which is outside
  the file. It re-serialises the object to its JSON text; a JSON value always has one.
\<close>

definition JSON_Marshal :: "json \<Rightarrow> go_error + string" where
  "JSON_Marshal v = Inr (json_text v)"

subsection \<open>Reading\<close>

definition unescape :: "char \<Rightarrow> char option" where
  "unescape e =
     (if e = quotation_mark \<or> e = backslash \<or> e = CHR ''/'' then Some e
      else if e = CHR ''b'' then Some (CHR 0x08)
      else if e = CHR ''f'' then Some (CHR 0x0C)
      else if e = CHR ''n'' then Some (CHR 0x0A)
      else if e = CHR ''r'' then Some (CHR 0x0D)
      else if e = CHR ''t'' then Some (CHR 0x09)
      else None)"

text \<open>The characters of a string up to its closing quotation mark, and what follows.\<close>

fun parse_string_body :: "string \<Rightarrow> (string \<times> string) option" where
  "parse_string_body [] = None"
| "parse_string_body (c # r) =
     (if c = quotation_mark then Some ([], r)
      else if c = backslash then
        (case r of
           [] \<Rightarrow> None
         | e # r1 \<Rightarrow>
             if e = CHR ''u'' then
               (case r1 of
                  a # b # x # y # r2 \<Rightarrow>
                    (case (hex_value a, hex_value b, hex_value x, hex_value y) of
                       (Some 0, Some 0, Some h, Some l) \<Rightarrow>
                         if 16 * h + l < 128 then
                           (case parse_string_body r2 of
                              None \<Rightarrow> None
                            | Some (s, r3) \<Rightarrow> Some (char_of (16 * h + l) # s, r3))
                         else None
                     | _ \<Rightarrow> None)
                | _ \<Rightarrow> None)
             else
               (case unescape e of
                  None \<Rightarrow> None
                | Some d \<Rightarrow>
                    (case parse_string_body r1 of
                       None \<Rightarrow> None
                     | Some (s, r3) \<Rightarrow> Some (d # s, r3))))
      else if (of_char c :: nat) < 32 then None
      else
        (case parse_string_body r of
           None \<Rightarrow> None
         | Some (s, r3) \<Rightarrow> Some (c # s, r3)))"

definition decimal_value :: "string \<Rightarrow> nat" where
  "decimal_value ds = foldl (\<lambda>a c. 10 * a + digit_value c) 0 ds"

text \<open>A run of digits without a superfluous leading zero, and what follows.\<close>

definition parse_digits :: "string \<Rightarrow> (nat \<times> string) option" where
  "parse_digits s =
     (let ds = takeWhile is_digit s in
      if ds = [] \<or> (1 < length ds \<and> hd ds = CHR ''0'') then None
      else Some (decimal_value ds, dropWhile is_digit s))"

text \<open>What may follow a number: anything but a digit.\<close>

definition follows_value :: "string \<Rightarrow> bool" where
  "follows_value r = (case r of [] \<Rightarrow> True | c # t \<Rightarrow> \<not> is_digit c)"

text \<open>
  A value, the elements of an array after its opening bracket, and the members of an
  object after its opening brace. The first argument bounds the depth of the recursion;
  the length of the text is always enough.
\<close>

fun parse_value :: "nat \<Rightarrow> string \<Rightarrow> (json \<times> string) option"
  and parse_elements :: "nat \<Rightarrow> string \<Rightarrow> (json list \<times> string) option"
  and parse_members :: "nat \<Rightarrow> string \<Rightarrow> ((string \<times> json) list \<times> string) option" where
  "parse_value 0 s = None"
| "parse_value (Suc n) s =
     (case s of
        [] \<Rightarrow> None
      | c # r \<Rightarrow>
          if c = quotation_mark then
            (case parse_string_body r of
               None \<Rightarrow> None
             | Some (x, r1) \<Rightarrow> Some (JString x, r1))
          else if c = CHR ''['' then
            (case r of
               [] \<Rightarrow> None
             | d # r1 \<Rightarrow>
                 if d = CHR '']'' then Some (JArray [], r1)
                 else
                   (case parse_elements n r of
                      None \<Rightarrow> None
                    | Some (vs, r2) \<Rightarrow> Some (JArray vs, r2)))
          else if c = CHR ''{'' then
            (case r of
               [] \<Rightarrow> None
             | d # r1 \<Rightarrow>
                 if d = CHR ''}'' then Some (JObject [], r1)
                 else
                   (case parse_members n r of
                      None \<Rightarrow> None
                    | Some (ms, r2) \<Rightarrow> Some (JObject ms, r2)))
          else if c = CHR ''-'' then
            (case parse_digits r of
               None \<Rightarrow> None
             | Some (k, r1) \<Rightarrow> Some (JNumber (- int k), r1))
          else if is_digit c then
            (case parse_digits s of
               None \<Rightarrow> None
             | Some (k, r1) \<Rightarrow> Some (JNumber (int k), r1))
          else if take 4 s = ''null'' then Some (JNull, drop 4 s)
          else if take 4 s = ''true'' then Some (JBool True, drop 4 s)
          else if take 5 s = ''false'' then Some (JBool False, drop 5 s)
          else None)"
| "parse_elements 0 s = None"
| "parse_elements (Suc n) s =
     (case parse_value n s of
        None \<Rightarrow> None
      | Some (v, r) \<Rightarrow>
          (case r of
             [] \<Rightarrow> None
           | c # r1 \<Rightarrow>
               if c = CHR '','' then
                 (case parse_elements n r1 of
                    None \<Rightarrow> None
                  | Some (vs, r2) \<Rightarrow> Some (v # vs, r2))
               else if c = CHR '']'' then Some ([v], r1)
               else None))"
| "parse_members 0 s = None"
| "parse_members (Suc n) s =
     (case s of
        [] \<Rightarrow> None
      | q # r \<Rightarrow>
          if q \<noteq> quotation_mark then None
          else
            (case parse_string_body r of
               None \<Rightarrow> None
             | Some (k, r1) \<Rightarrow>
                 (case r1 of
                    [] \<Rightarrow> None
                  | c # r2 \<Rightarrow>
                      if c \<noteq> CHR '':'' then None
                      else
                        (case parse_value n r2 of
                           None \<Rightarrow> None
                         | Some (v, r3) \<Rightarrow>
                             (case r3 of
                                [] \<Rightarrow> None
                              | d # r4 \<Rightarrow>
                                  if d = CHR '','' then
                                    (case parse_members n r4 of
                                       None \<Rightarrow> None
                                     | Some (ms, r5) \<Rightarrow> Some ((k, v) # ms, r5))
                                  else if d = CHR ''}'' then Some ([(k, v)], r4)
                                  else None)))))"

text \<open>
  Modelled from the spec: \<^verbatim>\<open>json.Unmarshal\<close>, which is outside the file. It reads one
  value that takes up the whole text.
\<close>

definition JSON_Unmarshal :: "string \<Rightarrow> json option" where
  "JSON_Unmarshal s =
     (case parse_value (length s) s of
        Some (v, []) \<Rightarrow> Some v
      | _ \<Rightarrow> None)"

text \<open>
  A discussion in the manner of the package's tests, as a JSON value, and an environment
  whose serialiser is the JSON serialiser.
\<close>

definition fixture_discussion :: json where
  "fixture_discussion =
     JObject [(''number'', JNumber 42), (''title'', JString ''Test Discussion''),
              (''body'', JString ''This is a test discussion''),
              (''category'', JObject [(''id'', JString ''1''), (''name'', JString ''General'')]),
              (''labels'', JArray [])]"

definition json_env :: "go_error + json Client \<Rightarrow> json env" where
  "json_env gc =
     \<lparr>getClient = gc, json_Marshal = JSON_Marshal,
      defaultPagination = \<lparr>page = 1, perPage = 30\<rparr>\<rparr>"

section \<open>Shared lemmas\<close>

lemmas tool_defs = ListDiscussions_tool_def GetDiscussion_tool_def
  GetDiscussionCategories_tool_def GetDiscussionComments_tool_def
  AddDiscussionComment_tool_def CreateDiscussion_tool_def WithPagination_def

lemmas params_defs = ListDiscussions_params_def GetDiscussion_params_def
  GetDiscussionCategories_params_def GetDiscussionComments_params_def
  AddDiscussionComment_params_def CreateDiscussion_params_def

lemmas handler_defs = ListDiscussions_handler_def GetDiscussion_handler_def
  GetDiscussionCategories_handler_def GetDiscussionComments_handler_def
  AddDiscussionComment_handler_def CreateDiscussion_handler_def

lemmas fixture_defs = fixture_env_def fixture_client_def failing_client_def
  fixture_Marshal_def NullTranslationHelper_def
  request_owner_repo_def request_discussion_42_def request_categories_page_2_def
  request_comment_empty_body_def request_list_unusable_filters_def

lemmas helper_defs = requiredParam_string_def RequiredInt_def OptionalParam_string_def
  OptionalPaginationParams_def

text \<open>
  All six handlers have one shape; they differ in the parameters they read, the message
  they put in front of a failure and the status code they accept.
\<close>

lemma handler_of_unfold:
  "handler_of op env request =
     (case params_of op (defaultPagination env) request of
        Inl err \<Rightarrow> ((Some (NewToolResultError (Error err)), None), [])
      | Inr call \<Rightarrow>
     (case getClient env of
        Inl err \<Rightarrow> ((None, Some (Errorf ''failed to get GitHub client'' err)), [GetClient])
      | Inr client \<Rightarrow>
     (case client call of
        Inl err \<Rightarrow>
          ((None, Some (Errorf (operation_message op) err)), [GetClient, ClientCall call])
      | Inr (obj, resp) \<Rightarrow>
          if StatusCode resp \<noteq> documented_success_status op then
            (case Body resp of
               Inl err \<Rightarrow>
                 ((None, Some (Errorf ''failed to read response body'' err)),
                  [GetClient, ClientCall call, ReadAll_Body, Body_Close])
             | Inr body \<Rightarrow>
                 ((Some (NewToolResultError (operation_message op @ '': '' @ body)), None),
                  [GetClient, ClientCall call, ReadAll_Body, Body_Close]))
          else
            (case json_Marshal env obj of
               Inl err \<Rightarrow>
                 ((None, Some (Errorf (marshal_message op) err)),
                  [GetClient, ClientCall call, Body_Close])
             | Inr r \<Rightarrow>
                 ((Some (NewToolResultText r), None),
                  [GetClient, ClientCall call, Body_Close])))))"
  by (cases op)
     (simp_all add: handler_defs StatusOK_def StatusCreated_def split: sum.splits prod.splits)

lemma handler_of_params_error:
  "params_of op (defaultPagination env) request = Inl err \<Longrightarrow>
     handler_of op env request = ((Some (NewToolResultError (Error err)), None), [])"
  by (simp add: handler_of_unfold)

lemma handler_of_no_client:
  "params_of op (defaultPagination env) request = Inr call \<Longrightarrow> getClient env = Inl err \<Longrightarrow>
     handler_of op env request =
       ((None, Some (Errorf ''failed to get GitHub client'' err)), [GetClient])"
  by (simp add: handler_of_unfold)

lemma handler_of_call_error:
  "params_of op (defaultPagination env) request = Inr call \<Longrightarrow> getClient env = Inr client \<Longrightarrow>
   client call = Inl err \<Longrightarrow>
     handler_of op env request =
       ((None, Some (Errorf (operation_message op) err)), [GetClient, ClientCall call])"
  by (simp add: handler_of_unfold)

lemma handler_of_other_status:
  "params_of op (defaultPagination env) request = Inr call \<Longrightarrow> getClient env = Inr client \<Longrightarrow>
   client call = Inr (obj, resp) \<Longrightarrow> StatusCode resp \<noteq> documented_success_status op \<Longrightarrow>
     handler_of op env request =
       (case Body resp of
          Inl err \<Rightarrow>
            ((None, Some (Errorf ''failed to read response body'' err)),
             [GetClient, ClientCall call, ReadAll_Body, Body_Close])
        | Inr body \<Rightarrow>
            ((Some (NewToolResultError (operation_message op @ '': '' @ body)), None),
             [GetClient, ClientCall call, ReadAll_Body, Body_Close]))"
  by (simp add: handler_of_unfold)

lemma handler_of_success_status:
  "params_of op (defaultPagination env) request = Inr call \<Longrightarrow> getClient env = Inr client \<Longrightarrow>
   client call = Inr (obj, resp) \<Longrightarrow> StatusCode resp = documented_success_status op \<Longrightarrow>
     handler_of op env request =
       (case json_Marshal env obj of
          Inl err \<Rightarrow>
            ((None, Some (Errorf (marshal_message op) err)),
             [GetClient, ClientCall call, Body_Close])
        | Inr r \<Rightarrow>
            ((Some (NewToolResultText r), None), [GetClient, ClientCall call, Body_Close]))"
  by (simp add: handler_of_unfold)

text \<open>What the parameter helpers return.\<close>

lemma requiredParam_string_Inl:
  "requiredParam_string r p = Inl err \<Longrightarrow>
     err = MissingRequiredParameter p \<or> err = ParameterNotOfType p ''string''"
  by (auto simp: requiredParam_string_def split: option.splits interface_value.splits if_splits)

lemma RequiredInt_Inl:
  "RequiredInt r p = Inl err \<Longrightarrow>
     err = MissingRequiredParameter p \<or> err = ParameterNotOfType p ''number''"
  by (auto simp: RequiredInt_def split: option.splits interface_value.splits)

lemma OptionalParam_string_Inl:
  "OptionalParam_string r p = Inl err \<Longrightarrow> err = ParameterNotOfType p ''string''"
  by (auto simp: OptionalParam_string_def split: option.splits interface_value.splits)

lemma OptionalPaginationParams_Inl:
  "OptionalPaginationParams dflt r = Inl err \<Longrightarrow>
     err = ParameterNotOfType ''page'' ''number'' \<or>
     err = ParameterNotOfType ''perPage'' ''number''"
  by (auto simp: OptionalPaginationParams_def
           split: option.splits interface_value.splits sum.splits)

lemma requiredParam_string_typed:
  "requiredParam_string r p = Inr v \<Longrightarrow> has_type string_type (r p)"
  by (auto simp: requiredParam_string_def split: option.splits interface_value.splits if_splits)

lemma RequiredInt_typed:
  "RequiredInt r p = Inr v \<Longrightarrow> has_type number_type (r p)"
  by (auto simp: RequiredInt_def split: option.splits interface_value.splits)

lemma params_of_Inl_parameter_error:
  "params_of op dflt request = Inl err \<Longrightarrow> is_parameter_error err"
  by (cases op)
     (auto simp: params_defs Let_def split: sum.splits
           dest!: requiredParam_string_Inl RequiredInt_Inl OptionalParam_string_Inl
                  OptionalPaginationParams_Inl)

lemma params_of_Inr_typed:
  assumes "params_of op dflt request = Inr call"
      and "(p, ty) \<in> set (required_properties (tool_of op t))"
  shows "has_type ty (request p)"
  using assms
  by (cases op)
     (auto simp: required_properties_def tool_defs params_defs Let_def split: sum.splits
           dest: requiredParam_string_typed RequiredInt_typed)

text \<open>
  Required parameters are read before optional ones, so when a required parameter is
  missing or mistyped the error is about a required parameter.
\<close>

lemma params_of_untyped_required:
  assumes "(p, ty) \<in> set (required_properties (tool_of op t))"
      and "\<not> has_type ty (request p)"
  shows "\<exists>err q. params_of op dflt request = Inl err \<and> error_parameter err = Some q \<and>
           q \<in> set (InputSchema_Required (tool_of op t))"
proof (cases "params_of op dflt request")
  case (Inr call)
  with assms show ?thesis
    using params_of_Inr_typed by blast
next
  case (Inl err)
  have "\<exists>q. error_parameter err = Some q \<and> q \<in> set (InputSchema_Required (tool_of op t))"
    using Inl assms
    by (cases op)
       (auto simp: required_properties_def InputSchema_Required_def tool_defs params_defs
                   Let_def
             split: sum.splits
             dest!: requiredParam_string_Inl RequiredInt_Inl
             dest: requiredParam_string_typed RequiredInt_typed)
  with Inl show ?thesis by blast
qed

section \<open>Parameter errors\<close>

text \<open>
  C1. For each of the six operations and every request in which a parameter that the
  tool declares as required is missing or does not have its declared primitive type, the
  handler returns a tool-level error result (with a nil Go error) whose text is a
  parameter error about a required parameter, and it has no effect at all: the client is
  neither obtained nor called.
\<close>

theorem C1_required_parameter_error:
  assumes "(p, ty) \<in> set (required_properties (tool_of op t))"
      and "\<not> has_type ty (request p)"
  shows "\<exists>err q. is_parameter_error err \<and> error_parameter err = Some q \<and>
           q \<in> set (InputSchema_Required (tool_of op t)) \<and>
           handler_of op env request = ((Some (NewToolResultError (Error err)), None), [])"
proof -
  obtain err q where e: "params_of op (defaultPagination env) request = Inl err"
      and q: "error_parameter err = Some q" "q \<in> set (InputSchema_Required (tool_of op t))"
    using params_of_untyped_required [of p ty op t request "defaultPagination env"] assms
    by blast
  from e have "is_parameter_error err"
    by (rule params_of_Inl_parameter_error)
  moreover from e have
    "handler_of op env request = ((Some (NewToolResultError (Error err)), None), [])"
    by (rule handler_of_params_error)
  ultimately show ?thesis using q by blast
qed

theorem C1_witness:
  "(''discussion_number'', number_type)
     \<in> set (required_properties (tool_of get_discussion NullTranslationHelper)) \<and>
   \<not> has_type number_type (request_owner_repo ''discussion_number'') \<and>
   handler_of get_discussion (fixture_env (Inr (fixture_client ''Test Discussion'' 200 (Inr ''''))))
       request_owner_repo =
     ((Some (NewToolResultError ''missing required parameter: discussion_number''), None), [])"
  using C1_required_parameter_error
    [of "''discussion_number''" number_type get_discussion NullTranslationHelper
        request_owner_repo "fixture_env (Inr (fixture_client ''Test Discussion'' 200 (Inr '''')))"]
  by (simp add: required_properties_def tool_defs fixture_defs handler_defs params_defs
        helper_defs)

text \<open>
  C5. Calling add_discussion_comment with the required string parameter body present but
  equal to the empty string fails parameter validation: the handler returns a parameter
  error as a tool-level error result and has no effect, so no request is sent. When the
  other three required parameters are in order, the error is the one about body.
\<close>

theorem C5_empty_body_rejected:
  assumes "request ''body'' = Some (StringValue '''')"
  shows "(\<exists>err. is_parameter_error err \<and>
            handler_of add_discussion_comment env request =
              ((Some (NewToolResultError (Error err)), None), [])) \<and>
         (\<forall>owner repo n.
            requiredParam_string request ''owner'' = Inr owner \<longrightarrow>
            requiredParam_string request ''repo'' = Inr repo \<longrightarrow>
            RequiredInt request ''discussion_number'' = Inr n \<longrightarrow>
            handler_of add_discussion_comment env request =
              ((Some (NewToolResultError ''missing required parameter: body''), None), []))"
proof -
  have b: "requiredParam_string request ''body'' = Inl (MissingRequiredParameter ''body'')"
    using assms by (simp add: requiredParam_string_def)
  then have "\<exists>err. params_of add_discussion_comment (defaultPagination env) request = Inl err"
    by (simp add: AddDiscussionComment_params_def split: sum.splits)
  then obtain err where
    e: "params_of add_discussion_comment (defaultPagination env) request = Inl err"
    by blast
  have "is_parameter_error err"
    using e by (rule params_of_Inl_parameter_error)
  moreover have
    "handler_of add_discussion_comment env request =
       ((Some (NewToolResultError (Error err)), None), [])"
    using e by (rule handler_of_params_error)
  moreover have
    "handler_of add_discussion_comment env request =
       ((Some (NewToolResultError ''missing required parameter: body''), None), [])"
    if "requiredParam_string request ''owner'' = Inr owner"
      and "requiredParam_string request ''repo'' = Inr repo"
      and "RequiredInt request ''discussion_number'' = Inr n" for owner repo n
    using that b by (simp add: AddDiscussionComment_handler_def AddDiscussionComment_params_def)
  ultimately show ?thesis by blast
qed

theorem C5_witness:
  "request_comment_empty_body ''body'' = Some (StringValue '''') \<and>
   handler_of add_discussion_comment
       (fixture_env (Inr (fixture_client ''This is a test comment'' 422 (Inr ''Invalid request''))))
       request_comment_empty_body =
     ((Some (NewToolResultError ''missing required parameter: body''), None), [])"
  using C5_empty_body_rejected
    [of request_comment_empty_body
        "fixture_env (Inr (fixture_client ''This is a test comment'' 422 (Inr ''Invalid request'')))"]
  by (simp add: fixture_defs handler_defs params_defs helper_defs)

section \<open>Tool declarations\<close>

text \<open>
  C8. For each tool, the parameters its input schema marks as required are exactly those
  of the Required column of the tool-surface table, and its other parameters are exactly
  those of the Optional column; in particular get_discussion requires owner, repo and
  discussion_number and create_discussion requires owner, repo, title, body and
  category_id, and neither has an optional parameter.
\<close>

theorem C8_required_as_tool_surface:
  "InputSchema_Required (tool_of op t) = tool_surface_required op \<and>
   optional_properties (tool_of op t) = tool_surface_optional op"
  by (cases op) (simp_all add: InputSchema_Required_def optional_properties_def tool_defs)

theorem C8_witness:
  "InputSchema_Required (tool_of get_discussion NullTranslationHelper) =
     [''owner'', ''repo'', ''discussion_number''] \<and>
   optional_properties (tool_of get_discussion NullTranslationHelper) = [] \<and>
   InputSchema_Required (tool_of create_discussion NullTranslationHelper) =
     [''owner'', ''repo'', ''title'', ''body'', ''category_id''] \<and>
   optional_properties (tool_of create_discussion NullTranslationHelper) = []"
  using C8_required_as_tool_surface [of get_discussion NullTranslationHelper]
        C8_required_as_tool_surface [of create_discussion NullTranslationHelper]
  by simp

section \<open>Upstream failures\<close>

text \<open>
  C4. For each operation, when the parameters are in order, the client is obtained and
  the call to the upstream service returns an error, the handler returns a nil tool
  result together with a Go error that wraps the upstream error behind the operation's
  message; it is not a tool-level error result. The call was made once and nothing was
  read or closed.
\<close>

theorem C4_transport_failure_is_hard_error:
  assumes "params_of op (defaultPagination env) request = Inr call"
      and "getClient env = Inr client"
      and "client call = Inl err"
  shows "handler_of op env request =
           ((None, Some (Errorf (operation_message op) err)), [GetClient, ClientCall call])"
  using assms by (rule handler_of_call_error)

theorem C4_witness:
  "params_of create_discussion \<lparr>page = 1, perPage = 30\<rparr>
       (map_of [(''owner'', StringValue ''owner''), (''repo'', StringValue ''repo''),
                (''title'', StringValue ''Test Discussion''),
                (''body'', StringValue ''This is a test discussion''),
                (''category_id'', StringValue ''invalid'')]) =
     Inr (Discussions_CreateDiscussion ''owner'' ''repo''
            \<lparr>Request_Title = Some ''Test Discussion'',
             Request_Body = Some ''This is a test discussion'',
             Request_CategoryID = Some ''invalid''\<rparr>) \<and>
   handler_of create_discussion
       (fixture_env (Inr (failing_client (ExternalError ''422 Invalid category ID''))))
       (map_of [(''owner'', StringValue ''owner''), (''repo'', StringValue ''repo''),
                (''title'', StringValue ''Test Discussion''),
                (''body'', StringValue ''This is a test discussion''),
                (''category_id'', StringValue ''invalid'')]) =
     ((None,
       Some (Errorf ''failed to create discussion'' (ExternalError ''422 Invalid category ID''))),
      [GetClient,
       ClientCall (Discussions_CreateDiscussion ''owner'' ''repo''
            \<lparr>Request_Title = Some ''Test Discussion'',
             Request_Body = Some ''This is a test discussion'',
             Request_CategoryID = Some ''invalid''\<rparr>)])"
  using C4_transport_failure_is_hard_error
    [of create_discussion
        "fixture_env (Inr (failing_client (ExternalError ''422 Invalid category ID'')))"
        "map_of [(''owner'', StringValue ''owner''), (''repo'', StringValue ''repo''),
                 (''title'', StringValue ''Test Discussion''),
                 (''body'', StringValue ''This is a test discussion''),
                 (''category_id'', StringValue ''invalid'')]"
        "Discussions_CreateDiscussion ''owner'' ''repo''
            \<lparr>Request_Title = Some ''Test Discussion'',
             Request_Body = Some ''This is a test discussion'',
             Request_CategoryID = Some ''invalid''\<rparr>"
        "failing_client (ExternalError ''422 Invalid category ID'')"
        "ExternalError ''422 Invalid category ID''"]
  by (simp add: fixture_defs params_defs helper_defs)

text \<open>
  C2, as the code has it. For each operation, when the upstream call returns without an
  error and the status code differs from the documented success code (200 for the four
  read operations, 201 for add_discussion_comment and create_discussion), the handler
  reads the response body; if the body can be read it returns a tool-level error result
  whose text is the operation's message, a colon and a space, and the raw body, and if
  reading the body fails it returns a nil result with a Go error that wraps the read
  error. When the status code equals the success code, no tool-level error result is
  returned.
\<close>

theorem C2_other_status_forwards_body:
  assumes "params_of op (defaultPagination env) request = Inr call"
      and "getClient env = Inr client"
      and "client call = Inr (obj, resp)"
  shows "(StatusCode resp \<noteq> documented_success_status op \<longrightarrow>
            (\<forall>body. Body resp = Inr body \<longrightarrow>
               fst (handler_of op env request) =
                 (Some (NewToolResultError (operation_message op @ '': '' @ body)), None)) \<and>
            (\<forall>err. Body resp = Inl err \<longrightarrow>
               fst (handler_of op env request) =
                 (None, Some (Errorf ''failed to read response body'' err)))) \<and>
         (StatusCode resp = documented_success_status op \<longrightarrow>
            (\<forall>r. fst (handler_of op env request) = (Some r, None) \<longrightarrow> \<not> IsError r))"
proof (cases "StatusCode resp = documented_success_status op")
  case True
  show ?thesis
    using True handler_of_success_status [OF assms True]
    by (auto simp: NewToolResultText_def split: sum.splits)
next
  case False
  show ?thesis
    using False handler_of_other_status [OF assms False]
    by (auto split: sum.splits)
qed

theorem C2_witness:
  "handler_of add_discussion_comment
       (fixture_env (Inr (fixture_client ''This is a test comment'' 422
                            (Inr ''Invalid request''))))
       (map_of [(''owner'', StringValue ''owner''), (''repo'', StringValue ''repo''),
                (''discussion_number'', NumberValue 42),
                (''body'', StringValue ''This is a test comment'')]) =
     ((Some (NewToolResultError ''failed to create discussion comment: Invalid request''), None),
      [GetClient,
       ClientCall (Discussions_CreateDiscussionComment ''owner'' ''repo'' 42
                     \<lparr>Comment_Body = Some ''This is a test comment''\<rparr>),
       ReadAll_Body, Body_Close])"
  using C2_other_status_forwards_body
    [of add_discussion_comment
        "fixture_env (Inr (fixture_client ''This is a test comment'' 422
                             (Inr ''Invalid request'')))"
        "map_of [(''owner'', StringValue ''owner''), (''repo'', StringValue ''repo''),
                 (''discussion_number'', NumberValue 42),
                 (''body'', StringValue ''This is a test comment'')]"
        "Discussions_CreateDiscussionComment ''owner'' ''repo'' 42
                     \<lparr>Comment_Body = Some ''This is a test comment''\<rparr>"
        "fixture_client ''This is a test comment'' 422 (Inr ''Invalid request'')"
        "''This is a test comment''"
        "\<lparr>StatusCode = 422, Body = Inr ''Invalid request''\<rparr>"]
  by (simp add: fixture_defs handler_defs params_defs helper_defs StatusCreated_def
        NewToolResultError_def)

text \<open>
  C2, as stated, fails: get_discussion for owner "owner", repo "repo", discussion 42,
  answered without a transport error by status 404 and a body that cannot be read. The
  handler returns a nil tool result and a Go error, not a textual tool error.
\<close>

theorem C2_counterexample:
  "handler_of get_discussion
       (fixture_env (Inr (fixture_client ''Test Discussion'' 404
                            (Inl (ExternalError ''unexpected EOF'')))))
       request_discussion_42 =
     ((None, Some (Errorf ''failed to read response body'' (ExternalError ''unexpected EOF''))),
      [GetClient, ClientCall (Discussions_GetDiscussion ''owner'' ''repo'' 42),
       ReadAll_Body, Body_Close])"
  by (simp add: fixture_defs handler_defs params_defs helper_defs StatusOK_def)

section \<open>Success\<close>

subsection \<open>Reading back what the serialiser writes\<close>

subsubsection \<open>Numbers\<close>

lemma is_digit_digit_char: "d < 10 \<Longrightarrow> is_digit (digit_char d)"
  by (simp add: is_digit_def digit_char_def)

lemma digit_value_digit_char: "d < 10 \<Longrightarrow> digit_value (digit_char d) = d"
  by (simp add: digit_value_def digit_char_def)

lemma digit_char_eq_zero: "d < 10 \<Longrightarrow> digit_char d = CHR ''0'' \<longleftrightarrow> d = 0"
proof -
  assume d: "d < 10"
  have "digit_char d = CHR ''0'' \<longleftrightarrow> (of_char (digit_char d) :: nat) = of_char CHR ''0''"
    by (simp only: of_char_eq_iff)
  also have "\<dots> \<longleftrightarrow> d = 0"
    using d by (simp add: digit_char_def)
  finally show ?thesis .
qed

lemma is_digit_not_punctuation:
  "is_digit c \<Longrightarrow>
     c \<noteq> quotation_mark \<and> c \<noteq> CHR ''['' \<and> c \<noteq> CHR ''{'' \<and> c \<noteq> CHR ''-'' \<and>
     c \<noteq> CHR '']'' \<and> c \<noteq> CHR ''}''"
  by (auto simp: is_digit_def quotation_mark_def)

declare decimal.simps [simp del]

lemma decimal_not_Nil: "decimal n \<noteq> []"
  by (subst decimal.simps) simp

lemma decimal_digits: "c \<in> set (decimal n) \<Longrightarrow> is_digit c"
proof (induction n arbitrary: c rule: decimal.induct)
  case (1 n)
  show ?case
  proof (cases "n < 10")
    case True
    with "1.prems" show ?thesis
      by (subst (asm) decimal.simps) (simp add: is_digit_digit_char)
  next
    case False
    with "1.prems" have "c \<in> set (decimal (n div 10)) \<or> c = digit_char (n mod 10)"
      by (subst (asm) decimal.simps) auto
    with False "1.IH" show ?thesis
      by (auto simp: is_digit_digit_char)
  qed
qed

lemma decimal_value_snoc:
  "decimal_value (ds @ [c]) = 10 * decimal_value ds + digit_value c"
  by (simp add: decimal_value_def)

lemma decimal_value_decimal: "decimal_value (decimal n) = n"
proof (induction n rule: decimal.induct)
  case (1 n)
  show ?case
  proof (cases "n < 10")
    case True
    then show ?thesis
      by (subst decimal.simps) (simp add: decimal_value_def digit_value_digit_char)
  next
    case False
    with "1.IH" show ?thesis
      by (subst decimal.simps) (simp add: decimal_value_snoc digit_value_digit_char)
  qed
qed

lemma hd_decimal_zero: "hd (decimal n) = CHR ''0'' \<Longrightarrow> n = 0"
proof (induction n rule: decimal.induct)
  case (1 n)
  show ?case
  proof (cases "n < 10")
    case True
    with "1.prems" show ?thesis
      by (subst (asm) decimal.simps) (simp add: digit_char_eq_zero)
  next
    case False
    with "1.prems" have "hd (decimal (n div 10)) = CHR ''0''"
      by (subst (asm) decimal.simps) (simp add: decimal_not_Nil)
    with False "1.IH" have "n div 10 = 0" by simp
    with False show ?thesis by simp
  qed
qed

lemma length_decimal_zero: "length (decimal 0) = 1"
  by (subst decimal.simps) simp

lemma takeWhile_follows_value: "follows_value r \<Longrightarrow> takeWhile is_digit r = []"
  by (cases r) (simp_all add: follows_value_def)

lemma dropWhile_follows_value: "follows_value r \<Longrightarrow> dropWhile is_digit r = r"
  by (cases r) (simp_all add: follows_value_def)

lemma parse_digits_decimal:
  assumes "follows_value r"
  shows "parse_digits (decimal n @ r) = Some (n, r)"
proof -
  have t: "takeWhile is_digit (decimal n @ r) = decimal n"
    using assms by (simp add: takeWhile_append2 decimal_digits takeWhile_follows_value)
  have d: "dropWhile is_digit (decimal n @ r) = r"
    using assms by (simp add: dropWhile_append2 decimal_digits dropWhile_follows_value)
  have z: "\<not> (1 < length (decimal n) \<and> hd (decimal n) = CHR ''0'')"
    using hd_decimal_zero [of n] length_decimal_zero by auto
  show ?thesis
    using z by (simp add: parse_digits_def Let_def t d decimal_not_Nil decimal_value_decimal)
qed

subsubsection \<open>Strings\<close>

lemma hex_value_hex_char: "d < 16 \<Longrightarrow> hex_value (hex_char d) = Some d"
  by (auto simp: hex_value_def hex_char_def Let_def)

lemma hex_value_zero: "hex_value CHR ''0'' = Some 0"
  by (simp add: hex_value_def)

lemma parse_string_body_escape_char:
  "parse_string_body (escape_char c @ t) =
     (case parse_string_body t of None \<Rightarrow> None | Some (s, r) \<Rightarrow> Some (c # s, r))"
proof -
  consider (q) "c = quotation_mark \<or> c = backslash"
    | (short) "c \<noteq> quotation_mark" "c \<noteq> backslash"
        "c = CHR 0x08 \<or> c = CHR 0x0C \<or> c = CHR 0x0A \<or> c = CHR 0x0D \<or> c = CHR 0x09"
    | (hex) "c \<noteq> quotation_mark" "c \<noteq> backslash" "c \<noteq> CHR 0x08" "c \<noteq> CHR 0x0C"
        "c \<noteq> CHR 0x0A" "c \<noteq> CHR 0x0D" "c \<noteq> CHR 0x09"
        "(of_char c :: nat) < 32 \<or> c = CHR ''<'' \<or> c = CHR ''>'' \<or> c = CHR ''&''"
    | (plain) "c \<noteq> quotation_mark" "c \<noteq> backslash" "\<not> (of_char c :: nat) < 32"
        "c \<noteq> CHR ''<''" "c \<noteq> CHR ''>''" "c \<noteq> CHR ''&''"
    by (cases "(of_char c :: nat) < 32") auto
  then show ?thesis
  proof cases
    case q
    then show ?thesis
      by (auto simp: escape_char_def unescape_def quotation_mark_def backslash_def)
  next
    case short
    then show ?thesis
      by (auto simp: escape_char_def unescape_def quotation_mark_def backslash_def)
  next
    case hex
    have n: "16 * ((of_char c :: nat) div 16) + of_char c mod 16 = of_char c"
      by simp
    have lt: "(of_char c :: nat) < 128"
      using hex(8) by auto
    have h: "hex_value (hex_char ((of_char c :: nat) div 16)) = Some (of_char c div 16)"
      by (rule hex_value_hex_char) (simp add: less_mult_imp_div_less)
    have l: "hex_value (hex_char ((of_char c :: nat) mod 16)) = Some (of_char c mod 16)"
      by (rule hex_value_hex_char) simp
    have e: "escape_char c =
               [backslash, CHR ''u'', CHR ''0'', CHR ''0'',
                hex_char (of_char c div 16), hex_char (of_char c mod 16)]"
      using hex by (simp add: escape_char_def)
    show ?thesis
      using lt by (simp add: e h l hex_value_zero n quotation_mark_def backslash_def
                     split: option.splits)
  next
    case plain
    then have "escape_char c = [c]"
      by (auto simp: escape_char_def)
    with plain show ?thesis
      by simp
  qed
qed

lemma parse_string_body_escaped:
  "parse_string_body (concat (map escape_char s) @ quotation_mark # r) = Some (s, r)"
  by (induction s) (simp_all add: parse_string_body_escape_char)

lemma string_text_Cons:
  "string_text s @ r = quotation_mark # concat (map escape_char s) @ quotation_mark # r"
  by (simp add: string_text_def)

subsubsection \<open>Values\<close>

lemma json_text_first:
  "\<exists>c t. json_text v = c # t \<and> c \<noteq> CHR '']'' \<and> c \<noteq> CHR ''}''"
proof (cases v)
  case (JNumber i)
  obtain d ds where d: "decimal (nat \<bar>i\<bar>) = d # ds"
    using decimal_not_Nil [of "nat \<bar>i\<bar>"] by (cases "decimal (nat \<bar>i\<bar>)") auto
  then have "is_digit d"
    using decimal_digits [of d "nat \<bar>i\<bar>"] by simp
  with d JNumber show ?thesis
    using is_digit_not_punctuation [of d]
    by (cases "i < 0") (auto simp: int_text_def abs_if)
qed (auto simp: string_text_def quotation_mark_def)

lemma parse_elements_separated:
  assumes "\<And>v n r. v \<in> set vs \<Longrightarrow> length (json_text v) \<le> n \<Longrightarrow> follows_value r \<Longrightarrow>
             parse_value n (json_text v @ r) = Some (v, r)"
      and "vs \<noteq> []"
      and "length (separated (map json_text vs)) < n"
  shows "parse_elements n (separated (map json_text vs) @ CHR '']'' # r) = Some (vs, r)"
  using assms
proof (induction vs arbitrary: n)
  case Nil
  then show ?case by simp
next
  case (Cons v ws)
  obtain m where n: "n = Suc m"
    using Cons.prems(3) by (cases n) auto
  show ?case
  proof (cases ws)
    case Nil
    have "parse_value m (json_text v @ CHR '']'' # r) = Some (v, CHR '']'' # r)"
      using Cons.prems(3) n Nil
      by (intro Cons.prems(1)) (auto simp: follows_value_def is_digit_def)
    with n Nil show ?thesis by simp
  next
    case (Cons w ws')
    let ?rest = "separated (map json_text ws) @ CHR '']'' # r"
    have len: "length (json_text v) \<le> m" "length (separated (map json_text ws)) < m"
      using Cons.prems(3) n Cons by auto
    have "parse_value m (json_text v @ CHR '','' # ?rest) = Some (v, CHR '','' # ?rest)"
      using len by (intro Cons.prems(1)) (auto simp: follows_value_def is_digit_def)
    moreover have "parse_elements m ?rest = Some (ws, r)"
      using len Cons Cons.prems(1) by (intro Cons.IH) auto
    ultimately show ?thesis
      using n Cons by simp
  qed
qed

lemma parse_members_separated:
  assumes "\<And>k v n r. (k, v) \<in> set ms \<Longrightarrow> length (json_text v) \<le> n \<Longrightarrow> follows_value r \<Longrightarrow>
             parse_value n (json_text v @ r) = Some (v, r)"
      and "ms \<noteq> []"
      and "length (separated (map (\<lambda>m. string_text (fst m) @ CHR '':'' # json_text (snd m)) ms))
             < n"
  shows "parse_members n
           (separated (map (\<lambda>m. string_text (fst m) @ CHR '':'' # json_text (snd m)) ms) @
            CHR ''}'' # r) = Some (ms, r)"
  using assms
proof (induction ms arbitrary: n)
  case Nil
  then show ?case by simp
next
  case (Cons kv ws)
  obtain k v where kv: "kv = (k, v)" by (cases kv)
  obtain m where n: "n = Suc m"
    using Cons.prems(3) by (cases n) auto
  show ?case
  proof (cases ws)
    case Nil
    have "length (json_text v) \<le> m"
      using Cons.prems(3) n Nil kv by (simp add: string_text_def)
    then have "parse_value m (json_text v @ CHR ''}'' # r) = Some (v, CHR ''}'' # r)"
      using kv by (intro Cons.prems(1) [of k]) (auto simp: follows_value_def is_digit_def)
    with n Nil kv show ?thesis
      by (simp add: string_text_def parse_string_body_escaped)
  next
    case (Cons w ws')
    let ?rest = "separated (map (\<lambda>m. string_text (fst m) @ CHR '':'' # json_text (snd m)) ws) @
                 CHR ''}'' # r"
    have len: "length (json_text v) \<le> m"
        "length (separated (map (\<lambda>m. string_text (fst m) @ CHR '':'' # json_text (snd m)) ws))
           < m"
      using Cons.prems(3) n Cons kv by (auto simp: string_text_def)
    have "parse_value m (json_text v @ CHR '','' # ?rest) = Some (v, CHR '','' # ?rest)"
      using len kv by (intro Cons.prems(1) [of k]) (auto simp: follows_value_def is_digit_def)
    moreover have "parse_members m ?rest = Some (ws, r)"
      using len Cons Cons.prems(1) by (intro Cons.IH) auto
    ultimately show ?thesis
      using n Cons kv by (simp add: string_text_def parse_string_body_escaped)
  qed
qed

lemma parse_value_json_text:
  "length (json_text v) \<le> n \<Longrightarrow> follows_value r \<Longrightarrow>
     parse_value n (json_text v @ r) = Some (v, r)"
proof (induction v arbitrary: n r)
  case JNull
  then obtain m where "n = Suc m" by (cases n) auto
  then show ?case
    by (simp add: quotation_mark_def is_digit_def)
next
  case (JBool b)
  then obtain m where "n = Suc m" by (cases n; cases b) auto
  then show ?case
    by (cases b) (simp_all add: quotation_mark_def is_digit_def)
next
  case (JNumber i)
  then obtain m where n: "n = Suc m"
    using decimal_not_Nil by (cases n) (auto simp: int_text_def split: if_splits)
  show ?case
  proof (cases "i < 0")
    case True
    with n JNumber.prems(2) show ?thesis
      by (simp add: int_text_def quotation_mark_def parse_digits_decimal)
  next
    case False
    obtain d ds where d: "decimal (nat i) = d # ds"
      using decimal_not_Nil [of "nat i"] by (cases "decimal (nat i)") auto
    then have "is_digit d"
      using decimal_digits [of d "nat i"] by simp
    moreover have "parse_digits (d # ds @ r) = Some (nat i, r)"
      using parse_digits_decimal [OF JNumber.prems(2), of "nat i"] d by simp
    ultimately show ?thesis
      using False n d is_digit_not_punctuation [of d]
      by (simp add: int_text_def)
  qed
next
  case (JString s)
  then obtain m where "n = Suc m" by (cases n) (auto simp: string_text_def)
  then show ?case
    by (simp add: string_text_def parse_string_body_escaped)
next
  case (JArray vs)
  then obtain m where n: "n = Suc m" by (cases n) auto
  show ?case
  proof (cases "vs = []")
    case True
    with n show ?thesis by (simp add: quotation_mark_def)
  next
    case False
    then obtain v ws where vs: "vs = v # ws" by (cases vs) auto
    obtain c t where c: "json_text v = c # t" "c \<noteq> CHR '']''"
      using json_text_first [of v] by blast
    obtain u where u: "separated (map json_text vs) = c # u"
      using vs c by (cases ws) auto
    have "parse_elements m (separated (map json_text vs) @ CHR '']'' # r) = Some (vs, r)"
      using JArray.IH JArray.prems(1) n False
      by (intro parse_elements_separated) auto
    with n u c show ?thesis
      by (simp add: quotation_mark_def)
  qed
next
  case (JObject ms)
  then obtain m where n: "n = Suc m" by (cases n) auto
  show ?case
  proof (cases "ms = []")
    case True
    with n show ?thesis by (simp add: quotation_mark_def)
  next
    case False
    then obtain kv ws where ms: "ms = kv # ws" by (cases ms) auto
    obtain u where u:
      "separated (map (\<lambda>m. string_text (fst m) @ CHR '':'' # json_text (snd m)) ms) =
         quotation_mark # u"
      using ms by (cases ws) (auto simp: string_text_def)
    have "parse_members m
            (separated (map (\<lambda>m. string_text (fst m) @ CHR '':'' # json_text (snd m)) ms) @
             CHR ''}'' # r) = Some (ms, r)"
    proof (rule parse_members_separated)
      fix k v n' r'
      assume "(k, v) \<in> set ms" "length (json_text v) \<le> n'" "follows_value r'"
      then show "parse_value n' (json_text v @ r') = Some (v, r')"
        using JObject.IH [of "(k, v)" v n' r'] by simp
    next
      show "ms \<noteq> []" by (rule False)
    next
      show "length (separated (map (\<lambda>m. string_text (fst m) @ CHR '':'' # json_text (snd m)) ms))
              < m"
        using JObject.prems(1) n by simp
    qed
    with n u show ?thesis
      by (simp add: quotation_mark_def)
  qed
qed

text \<open>Reading back the serialisation of a value gives the value.\<close>

lemma JSON_Unmarshal_json_text: "JSON_Unmarshal (json_text v) = Some v"
  using parse_value_json_text [of v "length (json_text v)" "[]"]
  by (simp add: JSON_Unmarshal_def follows_value_def)

subsection \<open>The payload\<close>

text \<open>
  C3. For each operation, when the upstream call returns without an error and with the
  success status code, the handler hands the object the client returned to the JSON
  serialiser as it is and returns the serialiser's output as it is: the handler returns a
  text payload exactly when the object has a serialisation, the payload is that
  serialisation, and it is not flagged as an error. With the JSON serialiser the payload is
  the JSON text of the object, with nothing filtered, added or transformed, and
  deserialising the payload yields the object the client returned.
\<close>

theorem C3_success_payload_is_serialisation:
  assumes "params_of op (defaultPagination env) request = Inr call"
      and "getClient env = Inr client"
      and "client call = Inr (obj, resp)"
      and "StatusCode resp = documented_success_status op"
  shows "(\<forall>s. json_Marshal env obj = Inr s \<longrightarrow>
            fst (handler_of op env request) = (Some (NewToolResultText s), None)) \<and>
         (\<forall>r. fst (handler_of op env request) = (Some r, None) \<longrightarrow>
            json_Marshal env obj = Inr (Text r) \<and> \<not> IsError r) \<and>
         (json_Marshal env = JSON_Marshal \<longrightarrow>
            (\<exists>r. fst (handler_of op env request) = (Some r, None) \<and> \<not> IsError r \<and>
                 Text r = json_text obj \<and> JSON_Unmarshal (Text r) = Some obj))"
proof -
  have h: "handler_of op env request =
             (case json_Marshal env obj of
                Inl err \<Rightarrow>
                  ((None, Some (Errorf (marshal_message op) err)),
                   [GetClient, ClientCall call, Body_Close])
              | Inr r \<Rightarrow>
                  ((Some (NewToolResultText r), None), [GetClient, ClientCall call, Body_Close]))"
    using assms by (rule handler_of_success_status)
  have "fst (handler_of op env request) = (Some (NewToolResultText s), None)"
    if "json_Marshal env obj = Inr s" for s
    using that by (simp add: h)
  moreover have "json_Marshal env obj = Inr (Text r) \<and> \<not> IsError r"
    if "fst (handler_of op env request) = (Some r, None)" for r
    using that by (auto simp: h NewToolResultText_def split: sum.splits)
  moreover have
    "\<exists>r. fst (handler_of op env request) = (Some r, None) \<and> \<not> IsError r \<and>
         Text r = json_text obj \<and> JSON_Unmarshal (Text r) = Some obj"
    if "json_Marshal env = JSON_Marshal"
    using that
    by (simp add: h JSON_Marshal_def NewToolResultText_def JSON_Unmarshal_json_text)
  ultimately show ?thesis by blast
qed

theorem C3_witness:
  \<open>handler_of get_discussion
       (json_env (Inr (fixture_client fixture_discussion 200 (Inr ''''))))
       request_discussion_42 =
     ((Some (NewToolResultText
        ''{"number":42,"title":"Test Discussion","body":"This is a test discussion","category":{"id":"1","name":"General"},"labels":[]}''),
       None),
      [GetClient, ClientCall (Discussions_GetDiscussion ''owner'' ''repo'' 42), Body_Close]) \<and>
   JSON_Unmarshal
     ''{"number":42,"title":"Test Discussion","body":"This is a test discussion","category":{"id":"1","name":"General"},"labels":[]}'' =
     Some fixture_discussion\<close>
proof -
  let ?env = "json_env (Inr (fixture_client fixture_discussion 200 (Inr '''')))"
  have p: "params_of get_discussion (defaultPagination ?env) request_discussion_42 =
             Inr (Discussions_GetDiscussion ''owner'' ''repo'' 42)"
    by (simp add: fixture_defs params_defs helper_defs)
  have g: "getClient ?env = Inr (fixture_client fixture_discussion 200 (Inr ''''))"
    by (simp add: json_env_def)
  have c: "fixture_client fixture_discussion 200 (Inr '''')
             (Discussions_GetDiscussion ''owner'' ''repo'' 42) =
           Inr (fixture_discussion, \<lparr>StatusCode = 200, Body = Inr ''''\<rparr>)"
    by (simp add: fixture_client_def)
  have s: "StatusCode \<lparr>StatusCode = 200, Body = Inr ''''\<rparr> =
             documented_success_status get_discussion"
    by simp
  have m: "json_Marshal ?env = JSON_Marshal"
    by (simp add: json_env_def)
  have t: \<open>json_text fixture_discussion =
             ''{"number":42,"title":"Test Discussion","body":"This is a test discussion","category":{"id":"1","name":"General"},"labels":[]}''\<close>
    by code_simp
  from C3_success_payload_is_serialisation [OF p g c s] m t
  have "fst (handler_of get_discussion ?env request_discussion_42) =
          (Some (NewToolResultText (json_text fixture_discussion)), None) \<and>
        JSON_Unmarshal (json_text fixture_discussion) = Some fixture_discussion"
    by (auto simp: NewToolResultText_def)
  moreover have "snd (handler_of get_discussion ?env request_discussion_42) =
          [GetClient, ClientCall (Discussions_GetDiscussion ''owner'' ''repo'' 42), Body_Close]"
    by (simp add: fixture_defs json_env_def JSON_Marshal_def handler_defs params_defs
          helper_defs StatusOK_def)
  ultimately show ?thesis
    by (simp add: t prod_eq_iff)
qed

section \<open>The request that is sent\<close>

text \<open>What the helpers return on an accepted argument.\<close>

lemma requiredParam_string_accepted:
  "accepted_required string_type (r p) \<Longrightarrow> \<exists>s. requiredParam_string r p = Inr s"
  by (cases "r p"; cases "the (r p)") (auto simp: requiredParam_string_def)

lemma RequiredInt_accepted:
  "accepted_required number_type (r p) \<Longrightarrow> \<exists>n. RequiredInt r p = Inr n"
  by (cases "r p"; cases "the (r p)") (auto simp: RequiredInt_def)

lemma OptionalParam_string_accepted:
  "accepted_optional string_type (r p) \<Longrightarrow> \<exists>s. OptionalParam_string r p = Inr s"
  by (cases "r p"; cases "the (r p)") (auto simp: OptionalParam_string_def)

lemma OptionalPaginationParams_accepted:
  "accepted_optional number_type (r ''page'') \<Longrightarrow>
   accepted_optional number_type (r ''perPage'') \<Longrightarrow>
     \<exists>pagination. OptionalPaginationParams dflt r = Inr pagination"
  by (cases "r ''page''"; cases "the (r ''page'')"; cases "r ''perPage''";
      cases "the (r ''perPage'')")
     (auto simp: OptionalPaginationParams_def)

lemma OptionalPaginationParams_Inr:
  "OptionalPaginationParams dflt r = Inr pagination \<Longrightarrow>
     (\<forall>pg. r ''page'' = Some (NumberValue pg) \<longrightarrow> page pagination = pg) \<and>
     (\<forall>pp. r ''perPage'' = Some (NumberValue pp) \<longrightarrow> perPage pagination = pp)"
  by (auto simp: OptionalPaginationParams_def
           split: option.splits interface_value.splits sum.splits)

text \<open>A well-formed request passes parameter validation: a call is built from it.\<close>

lemma well_formed_params_of:
  assumes "well_formed (tool_of op t) request"
  shows "\<exists>call. params_of op dflt request = Inr call"
proof (cases op)
  case list_discussions
  with assms have
    "accepted_required string_type (request ''owner'')"
    "accepted_required string_type (request ''repo'')"
    "accepted_optional string_type (request ''direction'')"
    "accepted_optional string_type (request ''category_id'')"
    "accepted_optional string_type (request ''pinned'')"
    "accepted_optional number_type (request ''page'')"
    "accepted_optional number_type (request ''perPage'')"
    by (simp_all add: well_formed_def tool_defs)
  then obtain owner repo direction categoryID pinnedStr pagination where
    "requiredParam_string request ''owner'' = Inr owner"
    "requiredParam_string request ''repo'' = Inr repo"
    "OptionalParam_string request ''direction'' = Inr direction"
    "OptionalParam_string request ''category_id'' = Inr categoryID"
    "OptionalParam_string request ''pinned'' = Inr pinnedStr"
    "OptionalPaginationParams dflt request = Inr pagination"
    using requiredParam_string_accepted OptionalParam_string_accepted
      OptionalPaginationParams_accepted by metis
  with list_discussions show ?thesis
    by (simp add: ListDiscussions_params_def Let_def)
next
  case get_discussion
  with assms have
    "accepted_required string_type (request ''owner'')"
    "accepted_required string_type (request ''repo'')"
    "accepted_required number_type (request ''discussion_number'')"
    by (simp_all add: well_formed_def tool_defs)
  then obtain owner repo n where
    "requiredParam_string request ''owner'' = Inr owner"
    "requiredParam_string request ''repo'' = Inr repo"
    "RequiredInt request ''discussion_number'' = Inr n"
    using requiredParam_string_accepted RequiredInt_accepted by metis
  with get_discussion show ?thesis
    by (simp add: GetDiscussion_params_def)
next
  case get_discussion_categories
  with assms have
    "accepted_required string_type (request ''owner'')"
    "accepted_required string_type (request ''repo'')"
    "accepted_optional number_type (request ''page'')"
    "accepted_optional number_type (request ''perPage'')"
    by (simp_all add: well_formed_def tool_defs)
  then obtain owner repo pagination where
    "requiredParam_string request ''owner'' = Inr owner"
    "requiredParam_string request ''repo'' = Inr repo"
    "OptionalPaginationParams dflt request = Inr pagination"
    using requiredParam_string_accepted OptionalPaginationParams_accepted by metis
  with get_discussion_categories show ?thesis
    by (simp add: GetDiscussionCategories_params_def Let_def)
next
  case get_discussion_comments
  with assms have
    "accepted_required string_type (request ''owner'')"
    "accepted_required string_type (request ''repo'')"
    "accepted_required number_type (request ''discussion_number'')"
    "accepted_optional number_type (request ''page'')"
    "accepted_optional number_type (request ''perPage'')"
    by (simp_all add: well_formed_def tool_defs)
  then obtain owner repo n pagination where
    "requiredParam_string request ''owner'' = Inr owner"
    "requiredParam_string request ''repo'' = Inr repo"
    "RequiredInt request ''discussion_number'' = Inr n"
    "OptionalPaginationParams dflt request = Inr pagination"
    using requiredParam_string_accepted RequiredInt_accepted
      OptionalPaginationParams_accepted by metis
  with get_discussion_comments show ?thesis
    by (simp add: GetDiscussionComments_params_def Let_def)
next
  case add_discussion_comment
  with assms have
    "accepted_required string_type (request ''owner'')"
    "accepted_required string_type (request ''repo'')"
    "accepted_required number_type (request ''discussion_number'')"
    "accepted_required string_type (request ''body'')"
    by (simp_all add: well_formed_def tool_defs)
  then obtain owner repo n body where
    "requiredParam_string request ''owner'' = Inr owner"
    "requiredParam_string request ''repo'' = Inr repo"
    "RequiredInt request ''discussion_number'' = Inr n"
    "requiredParam_string request ''body'' = Inr body"
    using requiredParam_string_accepted RequiredInt_accepted by metis
  with add_discussion_comment show ?thesis
    by (simp add: AddDiscussionComment_params_def Let_def)
next
  case create_discussion
  with assms have
    "accepted_required string_type (request ''owner'')"
    "accepted_required string_type (request ''repo'')"
    "accepted_required string_type (request ''title'')"
    "accepted_required string_type (request ''body'')"
    "accepted_required string_type (request ''category_id'')"
    by (simp_all add: well_formed_def tool_defs)
  then obtain owner repo title body categoryID where
    "requiredParam_string request ''owner'' = Inr owner"
    "requiredParam_string request ''repo'' = Inr repo"
    "requiredParam_string request ''title'' = Inr title"
    "requiredParam_string request ''body'' = Inr body"
    "requiredParam_string request ''category_id'' = Inr categoryID"
    using requiredParam_string_accepted by metis
  with create_discussion show ?thesis
    by (simp add: CreateDiscussion_params_def Let_def)
qed

lemma requiredParam_string_Inr_accepted:
  "requiredParam_string r p = Inr s \<Longrightarrow> accepted_required string_type (r p)"
  by (auto simp: requiredParam_string_def split: option.splits interface_value.splits if_splits)

lemma RequiredInt_Inr_accepted:
  "RequiredInt r p = Inr n \<Longrightarrow> accepted_required number_type (r p)"
  by (auto simp: RequiredInt_def split: option.splits interface_value.splits)

lemma OptionalParam_string_Inr_accepted:
  "OptionalParam_string r p = Inr s \<Longrightarrow> accepted_optional string_type (r p)"
  by (auto simp: OptionalParam_string_def split: option.splits interface_value.splits)

lemma OptionalPaginationParams_Inr_accepted:
  "OptionalPaginationParams dflt r = Inr pagination \<Longrightarrow>
     accepted_optional number_type (r ''page'') \<and> accepted_optional number_type (r ''perPage'')"
  by (auto simp: OptionalPaginationParams_def
           split: option.splits interface_value.splits sum.splits)

text \<open>Conversely, only a well-formed request passes parameter validation.\<close>

lemma params_of_well_formed:
  assumes "params_of op dflt request = Inr call"
  shows "well_formed (tool_of op t) request"
  using assms
  by (cases op)
     (auto simp: well_formed_def tool_defs params_defs Let_def split: sum.splits
           dest: requiredParam_string_Inr_accepted RequiredInt_Inr_accepted
                 OptionalParam_string_Inr_accepted OptionalPaginationParams_Inr_accepted)

text \<open>
  C6. For each operation that accepts pagination (list_discussions,
  get_discussion_categories, get_discussion_comments) and every well-formed request, the
  handler builds an upstream call that carries page options; a page value supplied in the
  request is the Page field of those options, unchanged, and a perPage value supplied in
  the request is their PerPage field, unchanged. Once the client is obtained, that call is
  the one call the handler makes.
\<close>

theorem C6_pagination_forwarded_unchanged:
  assumes "accepts_pagination op"
      and "well_formed (tool_of op t) request"
  shows "\<exists>call opts.
           params_of op (defaultPagination env) request = Inr call \<and>
           call_ListOptions call = Some opts \<and>
           (\<forall>pg. request ''page'' = Some (NumberValue pg) \<longrightarrow> Page opts = pg) \<and>
           (\<forall>pp. request ''perPage'' = Some (NumberValue pp) \<longrightarrow> PerPage opts = pp) \<and>
           (\<forall>client. getClient env = Inr client \<longrightarrow>
              client_calls (snd (handler_of op env request)) = [call])"
proof -
  obtain call where c: "params_of op (defaultPagination env) request = Inr call"
    using well_formed_params_of [of op t request "defaultPagination env"] assms(2) by blast
  have "\<exists>opts pagination. call_ListOptions call = Some opts \<and>
          OptionalPaginationParams (defaultPagination env) request = Inr pagination \<and>
          Page opts = page pagination \<and> PerPage opts = perPage pagination"
    using assms(1) c
    by (cases op) (auto simp: params_defs Let_def split: sum.splits)
  then obtain opts pagination where o: "call_ListOptions call = Some opts"
      and p: "OptionalPaginationParams (defaultPagination env) request = Inr pagination"
      and e: "Page opts = page pagination" "PerPage opts = perPage pagination"
    by blast
  have "client_calls (snd (handler_of op env request)) = [call]"
    if "getClient env = Inr client" for client
    using that c
    by (simp add: handler_of_unfold split: sum.splits prod.splits)
  with c o e OptionalPaginationParams_Inr [OF p] show ?thesis
    by auto
qed

theorem C6_witness:
  "accepts_pagination list_discussions \<and>
   well_formed (tool_of list_discussions NullTranslationHelper) request_list_page_1 \<and>
   client_calls
     (snd (handler_of list_discussions
             (fixture_env (Inr (fixture_client ''First Discussion'' 200 (Inr ''''))))
             request_list_page_1)) =
     [Discussions_ListDiscussions ''owner'' ''repo''
        \<lparr>Direction = ''desc'', CategoryID = ''1'', Pinned = Some True,
         ListOptions = \<lparr>Page = 1, PerPage = 30\<rparr>\<rparr>] \<and>
   accepts_pagination get_discussion_categories \<and>
   well_formed (tool_of get_discussion_categories NullTranslationHelper)
     request_categories_page_2 \<and>
   client_calls
     (snd (handler_of get_discussion_categories
             (fixture_env (Inr (fixture_client ''General'' 200 (Inr ''''))))
             request_categories_page_2)) =
     [Discussions_ListDiscussionCategories ''owner'' ''repo'' \<lparr>Page = 2, PerPage = 10\<rparr>] \<and>
   accepts_pagination get_discussion_comments \<and>
   well_formed (tool_of get_discussion_comments NullTranslationHelper)
     request_comments_page_2 \<and>
   client_calls
     (snd (handler_of get_discussion_comments
             (fixture_env (Inr (fixture_client ''This is the first comment'' 200 (Inr ''''))))
             request_comments_page_2)) =
     [Discussions_ListDiscussionComments ''owner'' ''repo'' 42
        \<lparr>CommentListOptions = \<lparr>Page = 2, PerPage = 10\<rparr>\<rparr>]"
  using C6_pagination_forwarded_unchanged
    [of list_discussions NullTranslationHelper request_list_page_1
        "fixture_env (Inr (fixture_client ''First Discussion'' 200 (Inr '''')))"]
    C6_pagination_forwarded_unchanged
    [of get_discussion_categories NullTranslationHelper request_categories_page_2
        "fixture_env (Inr (fixture_client ''General'' 200 (Inr '''')))"]
    C6_pagination_forwarded_unchanged
    [of get_discussion_comments NullTranslationHelper request_comments_page_2
        "fixture_env (Inr (fixture_client ''This is the first comment'' 200 (Inr '''')))"]
  by (simp add: well_formed_def tool_defs fixture_defs request_list_page_1_def
        request_comments_page_2_def handler_defs params_defs helper_defs StatusOK_def)

text \<open>
  C7, as the code has it. For each operation and every invocation whose parameters are
  in order, the handler first obtains the client, once. If that fails it returns a nil
  result and a Go error that wraps the failure, and sends no request. If it succeeds the
  handler sends exactly one request, the one built from the parameters, and never a second
  one. Its only other effects are on the response of that request: when the call returns an
  error there are none; when it returns a response the handler reads the body exactly when
  the status is not the success code, and closes the body afterwards.
\<close>

theorem C7_one_request_once_client_obtained:
  assumes "params_of op (defaultPagination env) request = Inr call"
  shows "(\<forall>err. getClient env = Inl err \<longrightarrow>
            handler_of op env request =
              ((None, Some (Errorf ''failed to get GitHub client'' err)), [GetClient])) \<and>
         (\<forall>client. getClient env = Inr client \<longrightarrow>
            client_calls (snd (handler_of op env request)) = [call] \<and>
            (\<forall>err. client call = Inl err \<longrightarrow>
               snd (handler_of op env request) = [GetClient, ClientCall call]) \<and>
            (\<forall>obj resp. client call = Inr (obj, resp) \<longrightarrow>
               snd (handler_of op env request) =
                 (if StatusCode resp \<noteq> documented_success_status op
                  then [GetClient, ClientCall call, ReadAll_Body, Body_Close]
                  else [GetClient, ClientCall call, Body_Close])))"
  using assms by (auto simp: handler_of_unfold split: sum.splits prod.splits)

theorem C7_witness:
  "params_of get_discussion \<lparr>page = 1, perPage = 30\<rparr> request_discussion_42 =
     Inr (Discussions_GetDiscussion ''owner'' ''repo'' 42) \<and>
   client_calls
     (snd (handler_of get_discussion
             (fixture_env (Inr (fixture_client ''Test Discussion'' 200 (Inr ''''))))
             request_discussion_42)) =
     [Discussions_GetDiscussion ''owner'' ''repo'' 42] \<and>
   snd (handler_of get_discussion
          (fixture_env (Inr (fixture_client ''Test Discussion'' 200 (Inr ''''))))
          request_discussion_42) =
     [GetClient, ClientCall (Discussions_GetDiscussion ''owner'' ''repo'' 42), Body_Close] \<and>
   snd (handler_of get_discussion
          (fixture_env (Inr (fixture_client ''Test Discussion'' 404 (Inr ''Not Found''))))
          request_discussion_42) =
     [GetClient, ClientCall (Discussions_GetDiscussion ''owner'' ''repo'' 42),
      ReadAll_Body, Body_Close] \<and>
   snd (handler_of get_discussion
          (fixture_env (Inr (failing_client (ExternalError ''connection refused''))))
          request_discussion_42) =
     [GetClient, ClientCall (Discussions_GetDiscussion ''owner'' ''repo'' 42)]"
  using C7_one_request_once_client_obtained
    [of get_discussion "fixture_env (Inr (fixture_client ''Test Discussion'' 200 (Inr '''')))"
        request_discussion_42 "Discussions_GetDiscussion ''owner'' ''repo'' 42"]
    C7_one_request_once_client_obtained
    [of get_discussion
        "fixture_env (Inr (fixture_client ''Test Discussion'' 404 (Inr ''Not Found'')))"
        request_discussion_42 "Discussions_GetDiscussion ''owner'' ''repo'' 42"]
    C7_one_request_once_client_obtained
    [of get_discussion
        "fixture_env (Inr (failing_client (ExternalError ''connection refused'')))"
        request_discussion_42 "Discussions_GetDiscussion ''owner'' ''repo'' 42"]
  by (simp add: fixture_defs handler_defs params_defs helper_defs StatusOK_def)

text \<open>
  C7, as stated, fails: get_discussion for owner "owner", repo "repo", discussion 42
  passes parameter validation, and when the client cannot be obtained the handler returns
  a Go error having sent no request.
\<close>

theorem C7_counterexample:
  "params_of get_discussion \<lparr>page = 1, perPage = 30\<rparr> request_discussion_42 =
     Inr (Discussions_GetDiscussion ''owner'' ''repo'' 42) \<and>
   handler_of get_discussion (fixture_env (Inl (ExternalError ''no token'')))
       request_discussion_42 =
     ((None, Some (Errorf ''failed to get GitHub client'' (ExternalError ''no token''))),
      [GetClient]) \<and>
   client_calls
     (snd (handler_of get_discussion (fixture_env (Inl (ExternalError ''no token'')))
             request_discussion_42)) = []"
  by (simp add: fixture_defs handler_defs params_defs helper_defs)

section \<open>The shape of what a handler returns\<close>

text \<open>
  C9. For each operation, every request and every behaviour of the client factory, the
  client, the body reader and the serialiser, the handler returns either a tool result
  with a nil error or a nil tool result with an error: exactly one of the two is nil.
\<close>

theorem C9_exactly_one_of_result_and_error:
  "(fst (fst (handler_of op env request)) = None) = (snd (fst (handler_of op env request)) \<noteq> None)"
  by (simp add: handler_of_unfold split: sum.splits prod.splits)

theorem C9_witness:
  "fst (fst (handler_of get_discussion (fixture_env (Inl (ExternalError ''no token'')))
               request_discussion_42)) = None \<and>
   snd (fst (handler_of get_discussion (fixture_env (Inl (ExternalError ''no token'')))
               request_discussion_42)) \<noteq> None"
  using C9_exactly_one_of_result_and_error
    [of get_discussion "fixture_env (Inl (ExternalError ''no token''))" request_discussion_42]
  by (simp add: fixture_defs handler_defs params_defs helper_defs)

section \<open>Optional filters of list_discussions\<close>

text \<open>The parameter helpers look at one argument of the request only.\<close>

lemma requiredParam_string_fun_upd:
  "p \<noteq> k \<Longrightarrow> requiredParam_string (r(k := v)) p = requiredParam_string r p"
  by (simp add: requiredParam_string_def)

lemma OptionalParam_string_fun_upd:
  "p \<noteq> k \<Longrightarrow> OptionalParam_string (r(k := v)) p = OptionalParam_string r p"
  by (simp add: OptionalParam_string_def)

lemma OptionalPaginationParams_fun_upd:
  "k \<noteq> ''page'' \<Longrightarrow> k \<noteq> ''perPage'' \<Longrightarrow>
     OptionalPaginationParams dflt (r(k := v)) = OptionalPaginationParams dflt r"
  by (simp add: OptionalPaginationParams_def cong: sum.case_cong)

lemma OptionalParam_string_absent:
  "OptionalParam_string (r(k := None)) k = Inr []"
  by (simp add: OptionalParam_string_def)

lemma OptionalParam_string_supplied:
  "r k = Some (StringValue s) \<Longrightarrow> OptionalParam_string r k = Inr s"
  by (simp add: OptionalParam_string_def)

lemmas filter_simps = ListDiscussions_params_def requiredParam_string_fun_upd
  OptionalParam_string_fun_upd OptionalPaginationParams_fun_upd OptionalParam_string_absent
  OptionalParam_string_supplied

text \<open>
  C10. In list_discussions an optional filter given as an unusable string is treated as if
  it were absent, and no error is reported for it: with direction equal to the empty string
  the handler does what it does without direction, and the Direction field of the call
  stays empty; likewise for category_id and the CategoryID field; and with pinned equal to
  any string other than "true" and "false" (the empty string included) the handler does
  what it does without pinned, and the Pinned field of the call stays nil.
\<close>

theorem C10_unusable_filter_as_absent:
  "(request ''direction'' = Some (StringValue '''') \<longrightarrow>
      handler_of list_discussions env request =
        handler_of list_discussions env (request(''direction'' := None)) \<and>
      (\<forall>owner repo opts.
         params_of list_discussions dflt request =
           Inr (Discussions_ListDiscussions owner repo opts) \<longrightarrow> Direction opts = '''')) \<and>
   (request ''category_id'' = Some (StringValue '''') \<longrightarrow>
      handler_of list_discussions env request =
        handler_of list_discussions env (request(''category_id'' := None)) \<and>
      (\<forall>owner repo opts.
         params_of list_discussions dflt request =
           Inr (Discussions_ListDiscussions owner repo opts) \<longrightarrow> CategoryID opts = '''')) \<and>
   (\<forall>s. request ''pinned'' = Some (StringValue s) \<longrightarrow> s \<noteq> ''true'' \<longrightarrow> s \<noteq> ''false'' \<longrightarrow>
      handler_of list_discussions env request =
        handler_of list_discussions env (request(''pinned'' := None)) \<and>
      (\<forall>owner repo opts.
         params_of list_discussions dflt request =
           Inr (Discussions_ListDiscussions owner repo opts) \<longrightarrow> Pinned opts = None))"
proof (intro conjI impI allI)
  assume a: "request ''direction'' = Some (StringValue '''')"
  have "ListDiscussions_params (defaultPagination env) request =
          ListDiscussions_params (defaultPagination env) (request(''direction'' := None))"
    using a by (simp add: filter_simps Let_def cong: sum.case_cong)
  then show "handler_of list_discussions env request =
               handler_of list_discussions env (request(''direction'' := None))"
    by (simp add: ListDiscussions_handler_def)
next
  fix owner repo opts
  assume "request ''direction'' = Some (StringValue '''')"
    and "params_of list_discussions dflt request =
           Inr (Discussions_ListDiscussions owner repo opts)"
  then show "Direction opts = ''''"
    by (auto simp: ListDiscussions_params_def OptionalParam_string_supplied Let_def
             split: sum.splits)
next
  assume a: "request ''category_id'' = Some (StringValue '''')"
  have "ListDiscussions_params (defaultPagination env) request =
          ListDiscussions_params (defaultPagination env) (request(''category_id'' := None))"
    using a by (simp add: filter_simps Let_def cong: sum.case_cong)
  then show "handler_of list_discussions env request =
               handler_of list_discussions env (request(''category_id'' := None))"
    by (simp add: ListDiscussions_handler_def)
next
  fix owner repo opts
  assume "request ''category_id'' = Some (StringValue '''')"
    and "params_of list_discussions dflt request =
           Inr (Discussions_ListDiscussions owner repo opts)"
  then show "CategoryID opts = ''''"
    by (auto simp: ListDiscussions_params_def OptionalParam_string_supplied Let_def
             split: sum.splits)
next
  fix s
  assume a: "request ''pinned'' = Some (StringValue s)" "s \<noteq> ''true''" "s \<noteq> ''false''"
  have "ListDiscussions_params (defaultPagination env) request =
          ListDiscussions_params (defaultPagination env) (request(''pinned'' := None))"
    using a by (simp add: filter_simps Let_def cong: sum.case_cong)
  then show "handler_of list_discussions env request =
               handler_of list_discussions env (request(''pinned'' := None))"
    by (simp add: ListDiscussions_handler_def)
next
  fix s owner repo opts
  assume "request ''pinned'' = Some (StringValue s)" "s \<noteq> ''true''" "s \<noteq> ''false''"
    and "params_of list_discussions dflt request =
           Inr (Discussions_ListDiscussions owner repo opts)"
  then show "Pinned opts = None"
    by (auto simp: ListDiscussions_params_def OptionalParam_string_supplied Let_def
             split: sum.splits)
qed

theorem C10_witness:
  "request_list_unusable_filters ''direction'' = Some (StringValue '''') \<and>
   request_list_unusable_filters ''category_id'' = Some (StringValue '''') \<and>
   request_list_unusable_filters ''pinned'' = Some (StringValue ''yes'') \<and>
   params_of list_discussions \<lparr>page = 1, perPage = 30\<rparr> request_list_unusable_filters =
     Inr (Discussions_ListDiscussions ''owner'' ''repo''
            \<lparr>Direction = '''', CategoryID = '''', Pinned = None,
             ListOptions = \<lparr>Page = 1, PerPage = 30\<rparr>\<rparr>) \<and>
   handler_of list_discussions
       (fixture_env (Inr (fixture_client ''First Discussion'' 200 (Inr ''''))))
       request_list_unusable_filters =
     handler_of list_discussions
       (fixture_env (Inr (fixture_client ''First Discussion'' 200 (Inr ''''))))
       request_owner_repo"
  using C10_unusable_filter_as_absent
    [of request_list_unusable_filters
        "fixture_env (Inr (fixture_client ''First Discussion'' 200 (Inr '''')))"
        "\<lparr>page = 1, perPage = 30\<rparr>"]
  by (simp add: fixture_defs handler_defs params_defs helper_defs StatusOK_def)

end
